theory Spec2Isabelle
  imports Main
begin

section \<open>JavaScript strings and values\<close>

text \<open>
  A JavaScript string is a sequence of UTF-16 code units; the regular expressions of
  \<^verbatim>\<open>app.js\<close> have no \<^verbatim>\<open>u\<close> flag, so every test they make is on one code unit.
  A code unit is a natural number here, and \<open>js\<close> turns an ASCII literal into one.
\<close>

type_synonym jsstr = "nat list"

definition js :: "string \<Rightarrow> jsstr" where
  "js s = map of_char s"

text \<open>\<^verbatim>\<open>String.prototype.startsWith\<close> and \<^verbatim>\<open>String.prototype.includes\<close>.\<close>

definition startsWith :: "jsstr \<Rightarrow> jsstr \<Rightarrow> bool" where
  "startsWith s p = (take (length p) s = p)"

fun str_includes :: "jsstr \<Rightarrow> jsstr \<Rightarrow> bool" where
  "str_includes [] p = (p = [])"
| "str_includes (c # cs) p = (startsWith (c # cs) p \<or> str_includes cs p)"

text \<open>
  The values a response body, a push payload or a DOM property can hold. An object is
  the list of its own properties in insertion order, the last entry of a key being the
  one that counts (as \<^verbatim>\<open>JSON.parse\<close> does with a repeated key). A number is kept as
  its canonical text, the result of \<^verbatim>\<open>ToString\<close>: the functions modelled here never
  compute with a number of a response, they test whether it is truthy and print it.
\<close>

datatype jsval =
    Undefined
  | Null
  | Bool bool
  | Num jsstr
  | Str jsstr
  | Arr "jsval list"
  | Obj "(jsstr \<times> jsval) list"

datatype error = TypeError | SyntaxError | NetworkError | Error jsstr

fun truthy :: "jsval \<Rightarrow> bool" where
  "truthy Undefined = False"
| "truthy Null = False"
| "truthy (Bool b) = b"
| "truthy (Num t) = (t \<noteq> js ''0'' \<and> t \<noteq> js ''NaN'')"
| "truthy (Str s) = (s \<noteq> [])"
| "truthy (Arr xs) = True"
| "truthy (Obj fs) = True"

definition objGet :: "(jsstr \<times> jsval) list \<Rightarrow> jsstr \<Rightarrow> jsval" where
  "objGet fs k = (case map_of (rev fs) k of None \<Rightarrow> Undefined | Some v \<Rightarrow> v)"

text \<open>
  Reading a property \<^verbatim>\<open>v.k\<close>, for the keys this program reads (none of them is a
  built-in property of a string, a number or an array): a \<^verbatim>\<open>TypeError\<close> on
  \<^verbatim>\<open>undefined\<close> and \<^verbatim>\<open>null\<close>, \<^verbatim>\<open>undefined\<close> where the key is missing.
\<close>

fun getProp :: "jsval \<Rightarrow> jsstr \<Rightarrow> error + jsval" where
  "getProp Undefined k = Inl TypeError"
| "getProp Null k = Inl TypeError"
| "getProp (Obj fs) k = Inr (objGet fs k)"
| "getProp v k = Inr Undefined"

fun decimal :: "nat \<Rightarrow> jsstr" where
  "decimal n = (if n < 10 then [48 + n] else decimal (n div 10) @ [48 + n mod 10])"

declare decimal.simps [simp del]

text \<open>The own enumerable properties of a value, as the spread \<^verbatim>\<open>{...v}\<close> copies them.\<close>

fun ownProps :: "jsval \<Rightarrow> (jsstr \<times> jsval) list" where
  "ownProps (Obj fs) = fs"
| "ownProps (Arr xs) = map (\<lambda>i. (decimal i, xs ! i)) [0..<length xs]"
| "ownProps (Str s) = map (\<lambda>i. (decimal i, Str [s ! i])) [0..<length s]"
| "ownProps v = []"

section \<open>The service worker\<close>

definition CACHE_NAME :: jsstr where
  "CACHE_NAME = js ''stockman-v1''"

subsection \<open>Cache Storage\<close>

text \<open>
  A cache maps the URL of a GET request to the response stored for it; the cache
  storage is the list of the named caches in the order of their creation, which is the
  order of \<^verbatim>\<open>caches.keys()\<close> and of the lookup of \<^verbatim>\<open>caches.match\<close>.
\<close>

type_synonym 'r cache = "jsstr \<rightharpoonup> 'r"
type_synonym 'r cache_storage = "(jsstr \<times> 'r cache) list"

definition caches_keys :: "'r cache_storage \<Rightarrow> jsstr list" where
  "caches_keys cs = map fst cs"

definition caches_open :: "jsstr \<Rightarrow> 'r cache_storage \<Rightarrow> 'r cache_storage" where
  "caches_open name cs = (if name \<in> set (caches_keys cs) then cs else cs @ [(name, Map.empty)])"

definition caches_delete :: "jsstr \<Rightarrow> 'r cache_storage \<Rightarrow> 'r cache_storage" where
  "caches_delete name cs = filter (\<lambda>entry. fst entry \<noteq> name) cs"

fun caches_match :: "jsstr \<Rightarrow> 'r cache_storage \<Rightarrow> 'r option" where
  "caches_match u [] = None"
| "caches_match u (entry # cs) =
     (case snd entry u of Some r \<Rightarrow> Some r | None \<Rightarrow> caches_match u cs)"

text \<open>
  \<^verbatim>\<open>cache.put\<close> is taken to store what it is given: that the platform refuses some
  responses (a partial one, status 206, among them) is not modelled.
\<close>

definition cache_put :: "jsstr \<Rightarrow> jsstr \<Rightarrow> 'r \<Rightarrow> 'r cache_storage \<Rightarrow> 'r cache_storage" where
  "cache_put name u r cs =
     map (\<lambda>entry. if fst entry = name then (fst entry, (snd entry)(u \<mapsto> r)) else entry) cs"

subsection \<open>The activate event\<close>

text \<open>
  \<^verbatim>\<open>cacheNames.filter((name) => name !== CACHE_NAME).map((name) => caches.delete(name))\<close>:
  \<open>activate_deletes\<close> is the list of the \<^verbatim>\<open>caches.delete\<close> calls made, \<open>activate\<close> the
  storage once all of them have settled.
\<close>

definition activate_deletes :: "'r cache_storage \<Rightarrow> jsstr list" where
  "activate_deletes cs = filter (\<lambda>name. name \<noteq> CACHE_NAME) (caches_keys cs)"

definition activate :: "'r cache_storage \<Rightarrow> 'r cache_storage" where
  "activate cs = fold caches_delete (activate_deletes cs) cs"

subsection \<open>The fetch event\<close>

record request =
  req_method :: jsstr
  req_url :: jsstr

text \<open>
  What the handler does with the event: it returns without calling
  \<^verbatim>\<open>event.respondWith\<close>, or it calls it with a promise; \<open>RespondWith v\<close> carries the
  value that promise settles with, \<open>None\<close> being \<^verbatim>\<open>undefined\<close>, the result of
  \<^verbatim>\<open>caches.match\<close> when no cache holds the request. The second argument is the
  outcome of \<^verbatim>\<open>fetch(event.request)\<close>: a response, or \<open>None\<close> when it rejects.
\<close>

datatype 'r disposition = NotIntercepted | RespondWith "'r option"

definition fetch_handler ::
  "request \<Rightarrow> 'r option \<Rightarrow> 'r cache_storage \<Rightarrow> 'r disposition \<times> 'r cache_storage" where
  "fetch_handler req net cs =
     (if req_method req \<noteq> js ''GET'' then (NotIntercepted, cs)
      else if str_includes (req_url req) (js ''/api/'') then (NotIntercepted, cs)
      else (case net of
              Some response \<Rightarrow>
                (RespondWith (Some response),
                 cache_put CACHE_NAME (req_url req) response (caches_open CACHE_NAME cs))
            | None \<Rightarrow> (RespondWith (caches_match (req_url req) cs), cs)))"

text \<open>
  What the page that made the request gets, by the rules of the platform: the network's
  own answer when the worker did not intercept, the response the worker's promise
  settled with, and a network error (the page's \<^verbatim>\<open>fetch\<close> promise rejects) when that
  promise settled with a value that is no response.
\<close>

datatype 'r page_result = PageResponse 'r | PageNetworkError

fun page_sees :: "'r disposition \<Rightarrow> 'r option \<Rightarrow> 'r page_result" where
  "page_sees NotIntercepted (Some r) = PageResponse r"
| "page_sees NotIntercepted None = PageNetworkError"
| "page_sees (RespondWith (Some r)) net = PageResponse r"
| "page_sees (RespondWith None) net = PageNetworkError"

subsection \<open>The push event\<close>

record shown_notification =
  n_title :: jsval
  n_body :: jsval
  n_icon :: jsval
  n_badge :: jsval
  n_vibrate :: "nat list"
  n_data :: jsval
  n_actions :: "(jsstr \<times> jsstr) list"
  n_requireInteraction :: bool
  n_tag :: jsstr

definition push_default :: "(jsstr \<times> jsval) list" where
  "push_default =
     [(js ''title'', Str (js ''Stockman'')),
      (js ''body'', Str (js ''You have a new update!'')),
      (js ''icon'', Str (js ''/icons/icon-192.png'')),
      (js ''badge'', Str (js ''/icons/icon-72.png'')),
      (js ''data'', Obj [(js ''url'', Str (js ''/''))])]"

text \<open>
  \<open>ed\<close> is \<^verbatim>\<open>event.data\<close>: \<open>None\<close> when the push has no payload, the text of the
  payload otherwise. \<open>parse\<close> is \<^verbatim>\<open>JSON.parse\<close>, \<open>None\<close> where it throws, so that
  \<^verbatim>\<open>event.data.json()\<close> is \<open>parse\<close> of the text.
\<close>

definition push_data :: "(jsstr \<Rightarrow> jsval option) \<Rightarrow> jsstr option \<Rightarrow> (jsstr \<times> jsval) list" where
  "push_data parse ed =
     (case ed of
        None \<Rightarrow> push_default
      | Some payload \<Rightarrow>
          (case parse payload of
             Some v \<Rightarrow> push_default @ ownProps v
           | None \<Rightarrow> push_default @ [(js ''body'', Str payload)]))"

definition push_handler :: "(jsstr \<Rightarrow> jsval option) \<Rightarrow> jsstr option \<Rightarrow> shown_notification" where
  "push_handler parse ed =
     (let data = push_data parse ed in
      \<lparr> n_title = objGet data (js ''title''),
        n_body = objGet data (js ''body''),
        n_icon = objGet data (js ''icon''),
        n_badge = objGet data (js ''badge''),
        n_vibrate = [100, 50, 100],
        n_data = objGet data (js ''data''),
        n_actions = [(js ''open'', js ''Open Stockman''), (js ''dismiss'', js ''Dismiss'')],
        n_requireInteraction = False,
        n_tag = js ''stockman-notification'' \<rparr>)"

section \<open>The page: strings and message formatting\<close>

subsection \<open>Character classes\<close>

text \<open>
  The line terminators (what \<^verbatim>\<open>.\<close> does not match, and where \<^verbatim>\<open>^\<close> and \<^verbatim>\<open>$\<close> match
  under the \<^verbatim>\<open>m\<close> flag), and the white space of \<^verbatim>\<open>\s\<close> and of
  \<^verbatim>\<open>String.prototype.trim\<close>.
\<close>

definition isLineTerminator :: "nat \<Rightarrow> bool" where
  "isLineTerminator c = (c = 10 \<or> c = 13 \<or> c = 8232 \<or> c = 8233)"

definition isWhiteSpace :: "nat \<Rightarrow> bool" where
  "isWhiteSpace c =
     (c = 9 \<or> c = 10 \<or> c = 11 \<or> c = 12 \<or> c = 13 \<or> c = 32 \<or> c = 160 \<or> c = 5760
      \<or> (8192 \<le> c \<and> c \<le> 8202) \<or> c = 8232 \<or> c = 8233 \<or> c = 8239 \<or> c = 8287
      \<or> c = 12288 \<or> c = 65279)"

definition isDigit :: "nat \<Rightarrow> bool" where
  "isDigit c = (48 \<le> c \<and> c \<le> 57)"

definition trim :: "jsstr \<Rightarrow> jsstr" where
  "trim s = rev (dropWhile isWhiteSpace (rev (dropWhile isWhiteSpace s)))"

subsection \<open>Global replacement\<close>

text \<open>
  \<^verbatim>\<open>s.replace(/re/g, template)\<close>. A matcher stands for one regular expression with its
  replacement template: given whether the position is at the beginning of a line and
  the rest of the input from the position, it returns the text that replaces the match
  and the number of code units matched. \<open>replaceAll\<close> scans from left to right, copies
  the code unit where nothing matches and resumes after a match (one code unit further
  when the match is empty, as \<^verbatim>\<open>RegExp.prototype[Symbol.replace]\<close> does).
\<close>

type_synonym matcher = "bool \<Rightarrow> jsstr \<Rightarrow> (jsstr \<times> nat) option"

function replaceAll :: "matcher \<Rightarrow> bool \<Rightarrow> jsstr \<Rightarrow> jsstr" where
  "replaceAll m bol [] = (case m bol [] of None \<Rightarrow> [] | Some (r, n) \<Rightarrow> r)"
| "replaceAll m bol (c # cs) =
     (case m bol (c # cs) of
        None \<Rightarrow> c # replaceAll m (isLineTerminator c) cs
      | Some (r, n) \<Rightarrow>
          (if n = 0 then r @ c # replaceAll m (isLineTerminator c) cs
           else r @ replaceAll m (isLineTerminator (last (take n (c # cs)))) (drop n (c # cs))))"
  by pat_completeness auto
termination
  by (relation "measure (\<lambda>(m, bol, s). length s)") auto

text \<open>A literal pattern, such as \<^verbatim>\<open>/&/g\<close> or \<^verbatim>\<open>/\n\n/g\<close>.\<close>

definition m_literal :: "jsstr \<Rightarrow> jsstr \<Rightarrow> matcher" where
  "m_literal p r bol s = (if startsWith s p then Some (r, length p) else None)"

text \<open>
  \<^verbatim>\<open>(.*?)\<close> followed by the literal \<open>p\<close>: the text captured, the shortest run of
  code units that \<^verbatim>\<open>.\<close> matches (any code unit under the \<^verbatim>\<open>s\<close> flag, any but a line
  terminator without it) after which \<open>p\<close> stands.
\<close>

fun lazy_until :: "bool \<Rightarrow> jsstr \<Rightarrow> jsstr \<Rightarrow> jsstr option" where
  "lazy_until dotAll p [] = (if p = [] then Some [] else None)"
| "lazy_until dotAll p (c # cs) =
     (if startsWith (c # cs) p then Some []
      else if dotAll \<or> \<not> isLineTerminator c then map_option ((#) c) (lazy_until dotAll p cs)
      else None)"

text \<open>\<^verbatim>\<open>/\*\*(.*?)\*\*/g\<close> and \<^verbatim>\<open>/__(.*?)__/g\<close>, replaced by \<^verbatim>\<open><strong>$1</strong>\<close>.\<close>

definition m_strong :: "jsstr \<Rightarrow> matcher" where
  "m_strong d bol s =
     (if startsWith s d then
        (case lazy_until False d (drop (length d) s) of
           None \<Rightarrow> None
         | Some cap \<Rightarrow>
             Some (js ''<strong>'' @ cap @ js ''</strong>'', length d + length cap + length d))
      else None)"

text \<open>\<^verbatim>\<open>/\*([^*]+)\*/g\<close> and \<^verbatim>\<open>/_([^_]+)_/g\<close>, replaced by \<^verbatim>\<open><em>$1</em>\<close>.\<close>

definition m_em :: "nat \<Rightarrow> matcher" where
  "m_em d bol s =
     (case s of
        [] \<Rightarrow> None
      | c # cs \<Rightarrow>
          (let cap = takeWhile (\<lambda>x. x \<noteq> d) cs in
           if c = d \<and> cap \<noteq> [] \<and> startsWith (drop (length cap) cs) [d]
           then Some (js ''<em>'' @ cap @ js ''</em>'', length cap + 2)
           else None))"

text \<open>
  \<^verbatim>\<open>\s+(.+)$\<close> under the \<^verbatim>\<open>m\<close> flag, the tail of both list patterns: the capture and
  the number of code units matched. The greedy \<^verbatim>\<open>\s+\<close> takes \<open>k\<close> white-space code
  units, the most it can and then fewer, until \<^verbatim>\<open>.+\<close> finds a code unit that is no
  line terminator; \<^verbatim>\<open>.+\<close> then runs to the end of the line, where \<^verbatim>\<open>$\<close> holds.
\<close>

definition ws_line :: "jsstr \<Rightarrow> (jsstr \<times> nat) option" where
  "ws_line s =
     (let w = length (takeWhile isWhiteSpace s) in
      case filter (\<lambda>k. k < length s \<and> \<not> isLineTerminator (s ! k)) (rev [1..<Suc w]) of
        [] \<Rightarrow> None
      | k # ks \<Rightarrow>
          (let cap = takeWhile (\<lambda>c. \<not> isLineTerminator c) (drop k s)
           in Some (cap, k + length cap)))"

text \<open>\<^verbatim>\<open>/^[-\<bullet>]\s+(.+)$/gm\<close>, the bullet being U+2022, replaced by \<^verbatim>\<open><li>$1</li>\<close>.\<close>

definition m_bullet :: matcher where
  "m_bullet bol s =
     (case s of
        [] \<Rightarrow> None
      | c # cs \<Rightarrow>
          (if bol \<and> (c = 45 \<or> c = 8226) then
             (case ws_line cs of
                None \<Rightarrow> None
              | Some (cap, n) \<Rightarrow> Some (js ''<li>'' @ cap @ js ''</li>'', 1 + n))
           else None))"

text \<open>\<^verbatim>\<open>/^\d+\.\s+(.+)$/gm\<close>, replaced by \<^verbatim>\<open><li>$1</li>\<close>.\<close>

definition m_numbered :: matcher where
  "m_numbered bol s =
     (let ds = takeWhile isDigit s in
      if bol \<and> ds \<noteq> [] \<and> startsWith (drop (length ds) s) [46] then
        (case ws_line (drop (length ds + 1) s) of
           None \<Rightarrow> None
         | Some (cap, n) \<Rightarrow> Some (js ''<li>'' @ cap @ js ''</li>'', length ds + 1 + n))
      else None)"

text \<open>
  \<^verbatim>\<open>/(<li>.*?<\/li>)+/gs\<close>, replaced by \<^verbatim>\<open><ul>$&</ul>\<close>. \<open>li_one\<close> is the length of
  one \<^verbatim>\<open><li>.*?</li>\<close> at the head of the input, \<open>li_run\<close> the length of the longest
  sequence of them (0 when there is none).
\<close>

definition li_one :: "jsstr \<Rightarrow> nat option" where
  "li_one s =
     (if startsWith s (js ''<li>'') then
        map_option (\<lambda>cap. 4 + length cap + 5) (lazy_until True (js ''</li>'') (drop 4 s))
      else None)"

lemma li_one_shorter: "li_one s = Some n \<Longrightarrow> length (drop n s) < length s"
  by (cases s) (auto simp: li_one_def startsWith_def js_def split: if_splits)

function li_run :: "jsstr \<Rightarrow> nat" where
  "li_run s = (case li_one s of None \<Rightarrow> 0 | Some n \<Rightarrow> n + li_run (drop n s))"
  by pat_completeness auto
termination
  by (relation "measure length") (auto dest: li_one_shorter)

declare li_run.simps [simp del]

definition m_li_group :: matcher where
  "m_li_group bol s =
     (let n = li_run s in
      if n = 0 then None else Some (js ''<ul>'' @ take n s @ js ''</ul>'', n))"

subsection \<open>formatMessage\<close>

text \<open>
  The first three \<^verbatim>\<open>replace\<close> calls of \<open>formatMessage\<close> (``Escape HTML first''), which
  are also the three that \<open>addMessage\<close> applies to a user's message.
\<close>

definition escapeMarkup :: "jsstr \<Rightarrow> jsstr" where
  "escapeMarkup text =
     (let html = replaceAll (m_literal (js ''&'') (js ''&amp;'')) True text;
          html = replaceAll (m_literal (js ''<'') (js ''&lt;'')) True html;
          html = replaceAll (m_literal (js ''>'') (js ''&gt;'')) True html
      in html)"

text \<open>The markdown substitutions that follow, in the order of the source.\<close>

definition markdown :: "jsstr \<Rightarrow> jsstr" where
  "markdown escaped =
     (let html = replaceAll (m_strong (js ''**'')) True escaped;
          html = replaceAll (m_strong (js ''__'')) True html;
          html = replaceAll (m_em 42) True html;
          html = replaceAll (m_em 95) True html;
          html = replaceAll m_bullet True html;
          html = replaceAll m_numbered True html;
          html = replaceAll (m_literal [10, 10] (js ''</p><p>'')) True html;
          html = replaceAll (m_literal [10] (js ''<br>'')) True html
      in html)"

definition formatMessage_html :: "jsstr \<Rightarrow> jsstr" where
  "formatMessage_html text =
     (let html = markdown (escapeMarkup text);
          html = replaceAll m_li_group True html
      in if \<not> startsWith html (js ''<'') then js ''<p>'' @ html @ js ''</p>'' else html)"

text \<open>
  \<^verbatim>\<open>formatMessage(text)\<close>: \<^verbatim>\<open>text.replace\<close> is a \<^verbatim>\<open>TypeError\<close> when \<open>text\<close> is
  \<^verbatim>\<open>undefined\<close> or \<^verbatim>\<open>null\<close> (no property can be read) and when it is any other
  value that is not a string (it has no method \<^verbatim>\<open>replace\<close>).
\<close>

fun formatMessage :: "jsval \<Rightarrow> error + jsstr" where
  "formatMessage (Str text) = Inr (formatMessage_html text)"
| "formatMessage v = Inl TypeError"

section \<open>The page: state, messages and chat\<close>

text \<open>
  \<^verbatim>\<open>app.js\<close> holds three versions of the client script one after the other. The first
  (lines 1 to 1112) formats the assistant's messages with \<open>formatMessage\<close> and shows a
  typing indicator; the third (lines 1765 to 2339) escapes every message through the
  DOM and shows a loading overlay. The definitions of the first keep the source's
  names, those of the third end in \<open>_v3\<close>. The second version has the \<open>sendMessage\<close>,
  \<open>addMessage\<close> and \<open>formatMessage\<close> of the first.
\<close>

datatype role = User | Assistant

datatype mode = Chat | Text

text \<open>
  A child of \<^verbatim>\<open>elements.messages\<close>: a message \<^verbatim>\<open>div\<close> with its class and the HTML of
  its \<^verbatim>\<open>.message-content\<close> (the \<^verbatim>\<open>.message-time\<close> beside it is the wall clock's and
  is left out), or the typing indicator, which \<open>showTyping\<close> moves there.
\<close>

datatype node = Message role jsstr | TypingIndicator

datatype blob = Blob "nat list" jsstr

text \<open>The requests the page makes, by endpoint, with what the request carries.\<close>

datatype api_call =
    PostChat jsval bool
  | PostTranscribe blob
  | PostSynthesize jsval
  | GetMorningWisdom
  | GetPortfolio
  | GetWatchlist
  | GetStock jsval

text \<open>
  How a \<^verbatim>\<open>fetch\<close> settles: \<open>None\<close> when the promise rejects, otherwise a response with
  its \<^verbatim>\<open>ok\<close> flag and the value \<^verbatim>\<open>response.json()\<close> resolves with, \<open>None\<close> when the
  body is no JSON and that promise rejects.
\<close>

record response =
  resp_ok :: bool
  resp_json :: "jsval option"

record recorder =
  rec_stream :: nat
  rec_mode :: mode

record notification =
  nt_title :: jsstr
  nt_body :: jsval
  nt_icon :: jsstr
  nt_tag :: jsstr
  nt_requireInteraction :: bool

record page =
  messageInput :: jsstr
  inputFocused :: bool
  children :: "node list"
  typingHidden :: bool
  loadingHidden :: bool
  welcomeCard :: "bool option"
  calls :: "api_call list"
  isRecording :: bool
  mediaRecorder :: "recorder option"
  audioChunks :: "nat list list"
  currentVoiceMode :: "mode option"
  trackLive :: "nat \<Rightarrow> bool list"
  voiceModalHidden :: bool
  voiceStatus :: jsstr
  alerts :: "jsstr list"
  played :: "jsstr list"
  hasSpeechSynthesis :: bool
  spoken :: "jsval list"
  localStorage :: "jsstr \<rightharpoonup> jsstr"
  notifications :: "notification list"
  tickerContent :: "jsstr option"

text \<open>
  \<open>welcomeCard\<close> is \<open>None\<close> when the document has no such element, otherwise whether
  it has the class \<^verbatim>\<open>hidden\<close>; \<open>trackLive sid\<close> lists, for the microphone stream
  \<open>sid\<close>, which of its tracks are still live; \<open>played\<close> holds the hex text of each audio
  clip played and \<open>spoken\<close> what was given to the browser's speech synthesis;
  \<open>tickerContent\<close> is \<open>None\<close> when the document has no element \<^verbatim>\<open>ticker-content\<close>,
  otherwise its inner HTML.
\<close>

text \<open>The page as it is loaded: nothing typed, no message, nothing requested.\<close>

definition initialPage :: page where
  "initialPage =
     \<lparr> messageInput = [], inputFocused = False, children = [], typingHidden = True,
       loadingHidden = True, welcomeCard = Some False, calls = [], isRecording = False,
       mediaRecorder = None, audioChunks = [], currentVoiceMode = None,
       trackLive = (\<lambda>sid. []), voiceModalHidden = True, voiceStatus = [], alerts = [],
       played = [], hasSpeechSynthesis = True, spoken = [], localStorage = Map.empty,
       notifications = [], tickerContent = Some [] \<rparr>"

definition issue :: "api_call \<Rightarrow> page \<Rightarrow> page" where
  "issue c st = st\<lparr>calls := calls st @ [c]\<rparr>"

definition messagesOf :: "role \<Rightarrow> page \<Rightarrow> jsstr list" where
  "messagesOf r st = [h. Message r' h \<leftarrow> children st, r' = r]"

subsection \<open>Utilities\<close>

definition showTyping :: "page \<Rightarrow> page" where
  "showTyping st =
     st\<lparr>children := filter (\<lambda>n. n \<noteq> TypingIndicator) (children st) @ [TypingIndicator],
        typingHidden := False\<rparr>"

definition hideTyping :: "page \<Rightarrow> page" where
  "hideTyping st = st\<lparr>typingHidden := True\<rparr>"

definition showLoading :: "page \<Rightarrow> page" where
  "showLoading st = st\<lparr>loadingHidden := False\<rparr>"

definition hideLoading :: "page \<Rightarrow> page" where
  "hideLoading st = st\<lparr>loadingHidden := True\<rparr>"

text \<open>
  \<^verbatim>\<open>ToString\<close>, for the values a JSON body holds. An object that has a property
  \<^verbatim>\<open>toString\<close> of its own, for which \<^verbatim>\<open>ToString\<close> throws a \<^verbatim>\<open>TypeError\<close>, is not
  told apart from the other objects.
\<close>

fun join :: "jsstr \<Rightarrow> jsstr list \<Rightarrow> jsstr" where
  "join sep [] = []"
| "join sep [x] = x"
| "join sep (x # y # ys) = x @ sep @ join sep (y # ys)"

fun toStr :: "jsval \<Rightarrow> jsstr" where
  "toStr Undefined = js ''undefined''"
| "toStr Null = js ''null''"
| "toStr (Bool b) = (if b then js ''true'' else js ''false'')"
| "toStr (Num t) = t"
| "toStr (Str s) = s"
| "toStr (Arr xs) =
     join (js '','') (map (\<lambda>x. if x = Undefined \<or> x = Null then [] else toStr x) xs)"
| "toStr (Obj fs) = js ''[object Object]''"

text \<open>
  \<^verbatim>\<open>escapeHtml\<close> of the third version: \<^verbatim>\<open>div.textContent = text\<close> takes \<^verbatim>\<open>null\<close> and
  \<^verbatim>\<open>undefined\<close> as the empty string and any other value by \<^verbatim>\<open>ToString\<close>;
  \<^verbatim>\<open>div.innerHTML\<close> then serialises the text node.
\<close>

definition serializeText :: "jsstr \<Rightarrow> jsstr" where
  "serializeText s =
     concat (map (\<lambda>c. if c = 38 then js ''&amp;'' else if c = 160 then js ''&nbsp;''
                        else if c = 60 then js ''&lt;'' else if c = 62 then js ''&gt;''
                        else [c]) s)"

definition escapeHtml :: "jsval \<Rightarrow> jsstr" where
  "escapeHtml text =
     serializeText (if text = Undefined \<or> text = Null then [] else toStr text)"

subsection \<open>addMessage\<close>

text \<open>
  The three \<^verbatim>\<open>replace\<close> calls on a user's message, in the first version:
  a \<^verbatim>\<open>TypeError\<close> when the content is no string.
\<close>

fun userContent :: "jsval \<Rightarrow> error + jsstr" where
  "userContent (Str content) = Inr (js ''<p>'' @ escapeMarkup content @ js ''</p>'')"
| "userContent v = Inl TypeError"

text \<open>
  A function that can throw returns the state it reached and the error thrown, if any:
  what it changed before throwing stays changed.
\<close>

definition hideWelcome :: "page \<Rightarrow> page" where
  "hideWelcome st = (if welcomeCard st = Some False then st\<lparr>welcomeCard := Some True\<rparr> else st)"

definition addMessage :: "role \<Rightarrow> jsval \<Rightarrow> page \<Rightarrow> page \<times> error option" where
  "addMessage r content st =
     (let st1 = hideWelcome st
      in case (if r = Assistant then formatMessage content else userContent content) of
           Inl e \<Rightarrow> (st1, Some e)
         | Inr formattedContent \<Rightarrow>
             (st1\<lparr>children := children st1 @ [Message r formattedContent]\<rparr>, None))"

definition addMessage_v3 :: "role \<Rightarrow> jsval \<Rightarrow> page \<Rightarrow> page" where
  "addMessage_v3 r content st = st\<lparr>children := children st @ [Message r (escapeHtml content)]\<rparr>"

subsection \<open>sendMessage\<close>

definition chatApology :: jsstr where
  "chatApology = js ''Sorry, I encountered an error. Please try again.''"

text \<open>
  \<open>sendMessage_begin\<close> is the function up to its first \<^verbatim>\<open>await\<close>, where the chat
  request has been issued and has not settled; \<open>sendMessage_awaits\<close> tells whether it
  got there. \<open>sendMessage_resume\<close> is the rest, run when the request has settled as
  \<open>out\<close>; \<open>sendMessage_try\<close> is the rest of its \<^verbatim>\<open>try\<close> block.
\<close>

definition sendMessage_awaits :: "page \<Rightarrow> bool" where
  "sendMessage_awaits st = (trim (messageInput st) \<noteq> [])"

definition sendMessage_begin :: "page \<Rightarrow> page \<times> error option" where
  "sendMessage_begin st =
     (let message = trim (messageInput st) in
      if message = [] then (st, None)
      else (case addMessage User (Str message) (st\<lparr>messageInput := []\<rparr>) of
              (st1, Some e) \<Rightarrow> (st1, Some e)
            | (st1, None) \<Rightarrow> (issue (PostChat (Str message) False) (showTyping st1), None)))"

definition sendMessage_try :: "response option \<Rightarrow> page \<Rightarrow> page \<times> error option" where
  "sendMessage_try out st =
     (case out of
        None \<Rightarrow> (st, Some NetworkError)
      | Some response \<Rightarrow>
          (case resp_json response of
             None \<Rightarrow> (st, Some SyntaxError)
           | Some data \<Rightarrow>
               (let st1 = hideTyping st in
                case getProp data (js ''reply'') of
                  Inl e \<Rightarrow> (st1, Some e)
                | Inr reply \<Rightarrow>
                    if truthy reply then addMessage Assistant reply st1 else (st1, None))))"

definition sendMessage_resume :: "response option \<Rightarrow> page \<Rightarrow> page \<times> error option" where
  "sendMessage_resume out st =
     (case sendMessage_try out st of
        (st1, None) \<Rightarrow> (st1, None)
      | (st1, Some e) \<Rightarrow> addMessage Assistant (Str chatApology) (hideTyping st1))"

definition sendMessage :: "response option \<Rightarrow> page \<Rightarrow> page \<times> error option" where
  "sendMessage out st =
     (case sendMessage_begin st of
        (st1, Some e) \<Rightarrow> (st1, Some e)
      | (st1, None) \<Rightarrow> if sendMessage_awaits st then sendMessage_resume out st1 else (st1, None))"

text \<open>The third version: a loading overlay, \<^verbatim>\<open>hideLoading\<close> in a \<^verbatim>\<open>finally\<close>.\<close>

definition sendMessage_begin_v3 :: "page \<Rightarrow> page" where
  "sendMessage_begin_v3 st =
     (let message = trim (messageInput st) in
      if message = [] then st
      else issue (PostChat (Str message) False)
             (showLoading (addMessage_v3 User (Str message) (st\<lparr>messageInput := []\<rparr>))))"

definition sendMessage_try_v3 :: "response option \<Rightarrow> page \<Rightarrow> page \<times> error option" where
  "sendMessage_try_v3 out st =
     (case out of
        None \<Rightarrow> (st, Some NetworkError)
      | Some response \<Rightarrow>
          (case resp_json response of
             None \<Rightarrow> (st, Some SyntaxError)
           | Some data \<Rightarrow>
               (case getProp data (js ''reply'') of
                  Inl e \<Rightarrow> (st, Some e)
                | Inr reply \<Rightarrow>
                    if truthy reply then (addMessage_v3 Assistant reply st, None)
                    else (st, None))))"

definition sendMessage_resume_v3 :: "response option \<Rightarrow> page \<Rightarrow> page" where
  "sendMessage_resume_v3 out st =
     hideLoading
       (case sendMessage_try_v3 out st of
          (st1, None) \<Rightarrow> st1
        | (st1, Some e) \<Rightarrow> addMessage_v3 Assistant (Str chatApology) st1)"

definition sendMessage_v3 :: "response option \<Rightarrow> page \<Rightarrow> page" where
  "sendMessage_v3 out st =
     (if sendMessage_awaits st then sendMessage_resume_v3 out (sendMessage_begin_v3 st)
      else sendMessage_begin_v3 st)"

section \<open>The page: voice\<close>

subsection \<open>Speaking the reply\<close>

text \<open>
  The browser's own speech synthesis. The choice of a preferred voice among those
  installed is left out: it changes how the utterance sounds, not whether it is spoken.
\<close>

definition useBrowserSpeech :: "jsval \<Rightarrow> page \<Rightarrow> page" where
  "useBrowserSpeech text st =
     (if hasSpeechSynthesis st then st\<lparr>spoken := spoken st @ [text]\<rparr> else st)"

text \<open>
  \<^verbatim>\<open>audio.match(/.{1,2}/g).map(...)\<close>: a \<^verbatim>\<open>TypeError\<close> when \<open>audio\<close> is no string (it
  has no \<^verbatim>\<open>match\<close>) and when no code unit of it is matched by \<^verbatim>\<open>.\<close> (\<^verbatim>\<open>match\<close> returns
  \<^verbatim>\<open>null\<close>); otherwise a clip, kept here as the hex text it is decoded from.
\<close>

fun hexClip :: "jsval \<Rightarrow> error + jsstr" where
  "hexClip (Str a) = (if list_all isLineTerminator a then Inl TypeError else Inr a)"
| "hexClip v = Inl TypeError"

text \<open>
  The \<^verbatim>\<open>try\<close> block of \<open>speakResponse\<close> up to the clip: an error thrown, no clip (the
  block goes on to \<open>useBrowserSpeech\<close>), or the clip to play. \<open>out\<close> is how the
  synthesis request settles.
\<close>

definition speakResponse_clip :: "response option \<Rightarrow> error + jsstr option" where
  "speakResponse_clip out =
     (case out of
        None \<Rightarrow> Inl NetworkError
      | Some response \<Rightarrow>
          if resp_ok response then
            (case resp_json response of
               None \<Rightarrow> Inl SyntaxError
             | Some d \<Rightarrow>
                 (case getProp d (js ''audio'') of
                    Inl e \<Rightarrow> Inl e
                  | Inr audio \<Rightarrow>
                      if truthy audio then map_sum id Some (hexClip audio) else Inr None))
          else Inr None)"

text \<open>\<open>playOk\<close>: whether the promise of \<^verbatim>\<open>audioElement.play()\<close> resolves.\<close>

definition speakResponse :: "jsval \<Rightarrow> response option \<Rightarrow> bool \<Rightarrow> page \<Rightarrow> page" where
  "speakResponse text out playOk st =
     (let st1 = issue (PostSynthesize text) st in
      case speakResponse_clip out of
        Inl e \<Rightarrow> useBrowserSpeech text st1
      | Inr None \<Rightarrow> useBrowserSpeech text st1
      | Inr (Some a) \<Rightarrow>
          if playOk then st1\<lparr>played := played st1 @ [a]\<rparr> else useBrowserSpeech text st1)"

text \<open>
  The third version does not test \<^verbatim>\<open>response.ok\<close>, does not wait for \<^verbatim>\<open>play()\<close> and
  has no fallback: its \<^verbatim>\<open>catch\<close> only logs.
\<close>

definition speakResponse_v3 :: "jsval \<Rightarrow> response option \<Rightarrow> page \<Rightarrow> page" where
  "speakResponse_v3 text out st =
     (let st1 = issue (PostSynthesize text) st in
      case out of
        None \<Rightarrow> st1
      | Some response \<Rightarrow>
          (case resp_json response of
             None \<Rightarrow> st1
           | Some d \<Rightarrow>
               (case getProp d (js ''audio'') of
                  Inl e \<Rightarrow> st1
                | Inr audio \<Rightarrow>
                    if truthy audio then
                      (case hexClip audio of
                         Inl e \<Rightarrow> st1
                       | Inr a \<Rightarrow> st1\<lparr>played := played st1 @ [a]\<rparr>)
                    else st1)))"

subsection \<open>processVoice\<close>

definition didntCatch :: jsstr where
  "didntCatch = js ''I didn'' @ [39] @ js ''t catch that. Please try speaking again.''"

definition voiceApology :: "mode \<Rightarrow> jsstr" where
  "voiceApology m =
     (if m = Text then js ''Voice service temporarily unavailable. Please type your message.''
      else js ''Sorry, I had trouble with the voice service. Please try again or type your message.'')"

definition voiceApology_v3 :: jsstr where
  "voiceApology_v3 = js ''Sorry, I had trouble understanding that. Please try again.''"

text \<open>\<^verbatim>\<open>text.trim()\<close> on a value: a \<^verbatim>\<open>TypeError\<close> when it is no string.\<close>

fun callTrim :: "jsval \<Rightarrow> error + jsstr" where
  "callTrim (Str t) = Inr (trim t)"
| "callTrim v = Inl TypeError"

text \<open>
  The voice-chat branch of the \<^verbatim>\<open>try\<close> block: \<open>chat\<close> is how the chat request settles,
  \<open>syn\<close> and \<open>playOk\<close> are for \<open>speakResponse\<close>. The assistant's message is added
  without any test of \<open>reply\<close>.
\<close>

definition processVoice_chat ::
  "jsval \<Rightarrow> response option \<Rightarrow> response option \<Rightarrow> bool \<Rightarrow> page \<Rightarrow> page \<times> error option" where
  "processVoice_chat text chat syn playOk st =
     (case addMessage User text (hideTyping st) of
        (st1, Some e) \<Rightarrow> (st1, Some e)
      | (st1, None) \<Rightarrow>
          (let st2 = issue (PostChat text True) (showTyping st1) in
           case chat of
             None \<Rightarrow> (st2, Some NetworkError)
           | Some chatResponse \<Rightarrow>
               (case resp_json chatResponse of
                  None \<Rightarrow> (st2, Some SyntaxError)
                | Some d \<Rightarrow>
                    (case getProp d (js ''reply'') of
                       Inl e \<Rightarrow> (st2, Some e)
                     | Inr reply \<Rightarrow>
                         (case addMessage Assistant reply (hideTyping st2) of
                            (st3, Some e) \<Rightarrow> (st3, Some e)
                          | (st3, None) \<Rightarrow> (speakResponse reply syn playOk st3, None))))))"

text \<open>
  The \<^verbatim>\<open>try\<close> block; \<open>tr\<close> is how the transcription request settles. In text mode
  \<open>messageInput\<close> holds the transcript as it is assigned; what the input element does
  to line breaks when its value is read back is not modelled.
\<close>

definition processVoice_try ::
  "blob \<Rightarrow> mode \<Rightarrow> response option \<Rightarrow> response option \<Rightarrow> response option \<Rightarrow> bool
     \<Rightarrow> page \<Rightarrow> page \<times> error option" where
  "processVoice_try audioBlob m tr chat syn playOk st =
     (let st1 = issue (PostTranscribe audioBlob) st in
      case tr of
        None \<Rightarrow> (st1, Some NetworkError)
      | Some transcribeResponse \<Rightarrow>
          if \<not> resp_ok transcribeResponse then (st1, Some (Error (js ''Transcription failed'')))
          else
            (case resp_json transcribeResponse of
               None \<Rightarrow> (st1, Some SyntaxError)
             | Some d \<Rightarrow>
                 (case getProp d (js ''text'') of
                    Inl e \<Rightarrow> (st1, Some e)
                  | Inr text \<Rightarrow>
                      if \<not> truthy text then addMessage Assistant (Str didntCatch) (hideTyping st1)
                      else
                        (case callTrim text of
                           Inl e \<Rightarrow> (st1, Some e)
                         | Inr trimmed \<Rightarrow>
                             if trimmed = [] then
                               addMessage Assistant (Str didntCatch) (hideTyping st1)
                             else if m = Text then
                               (hideTyping (st1\<lparr>messageInput := toStr text, inputFocused := True\<rparr>),
                                None)
                             else processVoice_chat text chat syn playOk st1))))"

definition processVoice ::
  "blob \<Rightarrow> mode \<Rightarrow> response option \<Rightarrow> response option \<Rightarrow> response option \<Rightarrow> bool
     \<Rightarrow> page \<Rightarrow> page \<times> error option" where
  "processVoice audioBlob m tr chat syn playOk st =
     (case processVoice_try audioBlob m tr chat syn playOk (showTyping st) of
        (st1, None) \<Rightarrow> (st1, None)
      | (st1, Some e) \<Rightarrow> addMessage Assistant (Str (voiceApology m)) (hideTyping st1))"

text \<open>The third version.\<close>

definition processVoice_try_v3 ::
  "blob \<Rightarrow> mode \<Rightarrow> response option \<Rightarrow> response option \<Rightarrow> response option
     \<Rightarrow> page \<Rightarrow> page \<times> error option" where
  "processVoice_try_v3 audioBlob m tr chat syn st =
     (let st1 = issue (PostTranscribe audioBlob) st in
      case tr of
        None \<Rightarrow> (st1, Some NetworkError)
      | Some transcribeResponse \<Rightarrow>
          (case resp_json transcribeResponse of
             None \<Rightarrow> (st1, Some SyntaxError)
           | Some d \<Rightarrow>
               (case getProp d (js ''text'') of
                  Inl e \<Rightarrow> (st1, Some e)
                | Inr text \<Rightarrow>
                    if \<not> truthy text then (hideLoading st1, None)
                    else if m = Text then
                      (hideLoading (st1\<lparr>messageInput := toStr text\<rparr>), None)
                    else
                      (let st2 = issue (PostChat text True) (addMessage_v3 User text st1) in
                       case chat of
                         None \<Rightarrow> (st2, Some NetworkError)
                       | Some chatResponse \<Rightarrow>
                           (case resp_json chatResponse of
                              None \<Rightarrow> (st2, Some SyntaxError)
                            | Some d' \<Rightarrow>
                                (case getProp d' (js ''reply'') of
                                   Inl e \<Rightarrow> (st2, Some e)
                                 | Inr reply \<Rightarrow>
                                     (speakResponse_v3 reply syn
                                        (addMessage_v3 Assistant reply st2), None)))))))"

definition processVoice_v3 ::
  "blob \<Rightarrow> mode \<Rightarrow> response option \<Rightarrow> response option \<Rightarrow> response option \<Rightarrow> page \<Rightarrow> page" where
  "processVoice_v3 audioBlob m tr chat syn st =
     hideLoading
       (case processVoice_try_v3 audioBlob m tr chat syn (showLoading st) of
          (st1, None) \<Rightarrow> st1
        | (st1, Some e) \<Rightarrow> addMessage_v3 Assistant (Str voiceApology_v3) st1)"

subsection \<open>Recording\<close>

text \<open>
  \<open>gum\<close> is how \<^verbatim>\<open>getUserMedia\<close> settles: \<open>None\<close> when it rejects, otherwise the new
  stream and the number of its tracks, all live. The recorder made for it keeps the
  stream and the mode, the two variables that its \<^verbatim>\<open>onstop\<close> closure captures.
\<close>

definition startVoice :: "mode \<Rightarrow> (nat \<times> nat) option \<Rightarrow> page \<Rightarrow> page" where
  "startVoice m gum st =
     (let st1 = st\<lparr>currentVoiceMode := Some m\<rparr> in
      case gum of
        None \<Rightarrow>
          st1\<lparr>alerts := alerts st1 @
            [js ''Could not access microphone. Please check your browser permissions and try again.'']\<rparr>
      | Some (sid, n) \<Rightarrow>
          st1\<lparr>trackLive := (trackLive st1)(sid := replicate n True),
              mediaRecorder := Some \<lparr>rec_stream = sid, rec_mode = m\<rparr>,
              audioChunks := [],
              isRecording := True,
              voiceModalHidden := False,
              voiceStatus := [55356, 57252] @
                (if m = Chat then js '' Listening... Tap to stop''
                 else js '' Speak your message... Tap to stop'')\<rparr>)"

definition ondataavailable :: "nat list \<Rightarrow> page \<Rightarrow> page" where
  "ondataavailable chunk st = st\<lparr>audioChunks := audioChunks st @ [chunk]\<rparr>"

text \<open>
  \<open>stopVoice\<close> returns the recorder whose \<^verbatim>\<open>stop()\<close> it called, if it called one: the
  platform then delivers the last chunk to \<open>ondataavailable\<close> and runs \<open>onstop\<close>.
\<close>

definition stopVoice :: "page \<Rightarrow> page \<times> recorder option" where
  "stopVoice st =
     (if mediaRecorder st \<noteq> None \<and> isRecording st
      then (st\<lparr>isRecording := False\<rparr>, mediaRecorder st)
      else (st, None))"

definition stopTracks :: "nat \<Rightarrow> page \<Rightarrow> page" where
  "stopTracks sid st =
     st\<lparr>trackLive := (trackLive st)(sid := map (\<lambda>live. False) (trackLive st sid))\<rparr>"

text \<open>
  The \<^verbatim>\<open>onstop\<close> handler of the recorder \<open>r\<close>. When the awaited \<open>processVoice\<close> throws,
  the statements after the \<^verbatim>\<open>await\<close> are not run.
\<close>

definition onstop ::
  "recorder \<Rightarrow> response option \<Rightarrow> response option \<Rightarrow> response option \<Rightarrow> bool
     \<Rightarrow> page \<Rightarrow> page \<times> error option" where
  "onstop r tr chat syn playOk st =
     (let audioBlob = Blob (concat (audioChunks st)) (js ''audio/webm'');
          st1 = st\<lparr>voiceStatus := js ''Processing...''\<rparr>
      in case processVoice audioBlob (rec_mode r) tr chat syn playOk st1 of
           (st2, Some e) \<Rightarrow> (st2, Some e)
         | (st2, None) \<Rightarrow> ((stopTracks (rec_stream r) st2)\<lparr>voiceModalHidden := True\<rparr>, None))"

definition onstop_v3 ::
  "recorder \<Rightarrow> response option \<Rightarrow> response option \<Rightarrow> response option \<Rightarrow> page \<Rightarrow> page" where
  "onstop_v3 r tr chat syn st =
     (let audioBlob = Blob (concat (audioChunks st)) (js ''audio/webm'')
      in stopTracks (rec_stream r) (processVoice_v3 audioBlob (rec_mode r) tr chat syn st))"

section \<open>The page: morning wisdom and the ticker\<close>

subsection \<open>checkMorningWisdom\<close>

definition wisdomKey :: jsstr where
  "wisdomKey = js ''stockman_wisdom_date''"

text \<open>
  \<open>hour\<close> and \<open>minute\<close> are \<^verbatim>\<open>getHours()\<close> and \<^verbatim>\<open>getMinutes()\<close> of the local time
  (the source reads the minute and does not use it), \<open>today\<close> is \<^verbatim>\<open>toDateString()\<close>,
  \<open>permission\<close> is \<^verbatim>\<open>Notification.permission\<close> and \<open>out\<close> is how the request
  settles. The title ends in the sun emoji, U+2600 U+FE0F.
\<close>

definition checkMorningWisdom ::
  "nat \<Rightarrow> nat \<Rightarrow> jsstr \<Rightarrow> jsstr \<Rightarrow> response option \<Rightarrow> page \<Rightarrow> page" where
  "checkMorningWisdom hour minute today permission out st =
     (if hour < 7 \<or> hour \<ge> 9 then st
      else if localStorage st wisdomKey = Some today then st
      else if permission \<noteq> js ''granted'' then st
      else
        (let st1 = issue GetMorningWisdom st in
         case out of
           None \<Rightarrow> st1
         | Some response \<Rightarrow>
             (case resp_json response of
                None \<Rightarrow> st1
              | Some data \<Rightarrow>
                  (case getProp data (js ''wisdom'') of
                     Inl e \<Rightarrow> st1
                   | Inr wisdom \<Rightarrow>
                       if truthy wisdom then
                         st1\<lparr>notifications := notifications st1 @
                               [\<lparr>nt_title = js ''Good Morning '' @ [9728, 65039],
                                 nt_body = wisdom,
                                 nt_icon = js ''/icons/icon-192.png'',
                                 nt_tag = js ''morning-wisdom'',
                                 nt_requireInteraction = False\<rparr>],
                             localStorage := (localStorage st1)(wisdomKey \<mapsto> today)\<rparr>
                       else st1))))"

subsection \<open>loadTicker\<close>

definition defaultTickers :: "jsval list" where
  "defaultTickers =
     map (\<lambda>s. Str (js s))
       [''AAPL'', ''MSFT'', ''GOOGL'', ''AMZN'', ''NVDA'', ''TSLA'',
        ''META'', ''NFLX'', ''AMD'', ''INTC'', ''CRM'', ''ORCL'',
        ''JPM'', ''V'', ''MA'', ''BAC'',
        ''JNJ'', ''PFE'', ''UNH'',
        ''XOM'', ''CVX'']"

text \<open>
  The equality of \<^verbatim>\<open>Set\<close>: primitive values are compared by value. Two arrays or
  objects of a parsed JSON body are never the same object, so two members of the list
  that a set is built from are never equal when one of them is an array or an object.
\<close>

fun sameValueZero :: "jsval \<Rightarrow> jsval \<Rightarrow> bool" where
  "sameValueZero Undefined Undefined = True"
| "sameValueZero Null Null = True"
| "sameValueZero (Bool a) (Bool b) = (a = b)"
| "sameValueZero (Num a) (Num b) = (a = b)"
| "sameValueZero (Str a) (Str b) = (a = b)"
| "sameValueZero x y = False"

text \<open>\<^verbatim>\<open>[...new Set(xs)]\<close>: the members in the order of their first occurrence.\<close>

definition setAdd :: "jsval list \<Rightarrow> jsval \<Rightarrow> jsval list" where
  "setAdd members x = (if list_ex (\<lambda>y. sameValueZero y x) members then members else members @ [x])"

definition newSet :: "jsval list \<Rightarrow> jsval list" where
  "newSet xs = foldl setAdd [] xs"

text \<open>
  \<^verbatim>\<open>String.prototype.toUpperCase\<close>, which \<open>loadWatchlistEarnings\<close> applies to every
  ticker of the watchlist before it builds its set
  (\<^verbatim>\<open>new Set(watchlist.map(s => s.ticker.toUpperCase()))\<close>) and which \<open>loadTicker\<close> does
  not apply. Only the letters \<^verbatim>\<open>a\<close> to \<^verbatim>\<open>z\<close> are mapped here: the definition is
  \<^verbatim>\<open>toUpperCase\<close> on the strings whose code units are all ASCII, as ticker symbols are.
\<close>

definition toUpperCase_ascii :: "jsstr \<Rightarrow> jsstr" where
  "toUpperCase_ascii s = map (\<lambda>c. if 97 \<le> c \<and> c \<le> 122 then c - 32 else c) s"

text \<open>
  \<^verbatim>\<open>list.map(s => s.ticker)\<close>: a \<^verbatim>\<open>TypeError\<close> when \<open>list\<close> is no array, and when a
  member of it is \<^verbatim>\<open>null\<close>.
\<close>

fun getTickers :: "jsval list \<Rightarrow> error + jsval list" where
  "getTickers [] = Inr []"
| "getTickers (s # ss) =
     (case getProp s (js ''ticker'') of
        Inl e \<Rightarrow> Inl e
      | Inr t \<Rightarrow> (case getTickers ss of Inl e \<Rightarrow> Inl e | Inr ts \<Rightarrow> Inr (t # ts)))"

fun mapTicker :: "jsval \<Rightarrow> error + jsval list" where
  "mapTicker (Arr xs) = getTickers xs"
| "mapTicker v = Inl TypeError"

definition loadTicker_tickers :: "jsval \<Rightarrow> jsval \<Rightarrow> error + jsval list" where
  "loadTicker_tickers portfolio watchlist =
     (case mapTicker portfolio of
        Inl e \<Rightarrow> Inl e
      | Inr ps \<Rightarrow>
          (case mapTicker watchlist of
             Inl e \<Rightarrow> Inl e
           | Inr ws \<Rightarrow> Inr (newSet (defaultTickers @ ps @ ws))))"

text \<open>
  The \<^verbatim>\<open>try\<close> block of \<open>loadTicker\<close> up to the list of tickers; \<open>pout\<close> and \<open>wout\<close> are
  how the portfolio and the watchlist requests settle.
\<close>

definition loadTicker_symbols :: "response option \<Rightarrow> response option \<Rightarrow> error + jsval list" where
  "loadTicker_symbols pout wout =
     (case pout of
        None \<Rightarrow> Inl NetworkError
      | Some portfolioRes \<Rightarrow>
          (case wout of
             None \<Rightarrow> Inl NetworkError
           | Some watchlistRes \<Rightarrow>
               (case resp_json portfolioRes of
                  None \<Rightarrow> Inl SyntaxError
                | Some pd \<Rightarrow>
                    (case getProp pd (js ''portfolio'') of
                       Inl e \<Rightarrow> Inl e
                     | Inr portfolio \<Rightarrow>
                         (case resp_json watchlistRes of
                            None \<Rightarrow> Inl SyntaxError
                          | Some wd \<Rightarrow>
                              (case getProp wd (js ''watchlist'') of
                                 Inl e \<Rightarrow> Inl e
                               | Inr watchlist \<Rightarrow> loadTicker_tickers portfolio watchlist))))))"

text \<open>
  \<open>updateTickerWithStocks\<close> up to its \<^verbatim>\<open>await\<close>: one quote request for each ticker,
  in the order of the list. What it renders once the quotes are there is formatted
  from floating-point numbers and is not modelled.
\<close>

definition updateTickerWithStocks_begin :: "jsval list \<Rightarrow> page \<Rightarrow> page" where
  "updateTickerWithStocks_begin tickers st = st\<lparr>calls := calls st @ map GetStock tickers\<rparr>"

definition tickerUnavailable :: jsstr where
  "tickerUnavailable =
     js ''<span class='' @ [34] @ js ''ticker-placeholder'' @ [34]
       @ js ''>Market data unavailable</span>''"

definition loadTicker_begin :: "page \<Rightarrow> page" where
  "loadTicker_begin st =
     (case tickerContent st of
        None \<Rightarrow> st
      | Some html \<Rightarrow> issue GetWatchlist (issue GetPortfolio st))"

definition loadTicker_resume :: "response option \<Rightarrow> response option \<Rightarrow> page \<Rightarrow> page" where
  "loadTicker_resume pout wout st =
     (case loadTicker_symbols pout wout of
        Inl e \<Rightarrow> st\<lparr>tickerContent := Some tickerUnavailable\<rparr>
      | Inr tickers \<Rightarrow> updateTickerWithStocks_begin tickers st)"

section \<open>Properties of the service worker\<close>

lemma fold_caches_delete:
  "fold caches_delete ns cs = filter (\<lambda>entry. fst entry \<notin> set ns) cs"
proof (induction ns arbitrary: cs)
  case Nil
  show ?case by simp
next
  case (Cons n ns)
  have "fold caches_delete (n # ns) cs = fold caches_delete ns (caches_delete n cs)"
    by simp
  also have "\<dots> = filter (\<lambda>entry. fst entry \<notin> set ns) (caches_delete n cs)"
    by (rule Cons.IH)
  also have "\<dots> = filter (\<lambda>entry. fst entry \<notin> set (n # ns)) cs"
    by (auto simp: caches_delete_def intro: filter_cong)
  finally show ?case .
qed

lemma activate_keeps_current:
  "activate cs = filter (\<lambda>entry. fst entry = CACHE_NAME) cs"
  unfolding activate_def fold_caches_delete activate_deletes_def caches_keys_def
  by (rule filter_cong) auto

lemma count_list_filter_distinct:
  "distinct xs \<Longrightarrow> count_list (filter P xs) x = (if x \<in> set xs \<and> P x then 1 else 0)"
  by (induction xs) auto

text \<open>
  C6. Whatever caches exist at activation (their names are pairwise different, being the
  keys of the cache storage), \<^verbatim>\<open>caches.delete\<close> is called exactly once for each name
  other than \<^verbatim>\<open>CACHE_NAME\<close> and never for \<^verbatim>\<open>CACHE_NAME\<close>; afterwards the storage
  holds the cache of the current version, with its content, and nothing else.
\<close>

theorem activate_deletes_stale_once:
  assumes "distinct (caches_keys cs)"
  shows "count_list (activate_deletes cs) name =
           (if name \<in> set (caches_keys cs) \<and> name \<noteq> CACHE_NAME then 1 else 0)
         \<and> activate cs = filter (\<lambda>entry. fst entry = CACHE_NAME) cs
         \<and> caches_keys (activate cs) = filter (\<lambda>n. n = CACHE_NAME) (caches_keys cs)
         \<and> map_of (activate cs) CACHE_NAME = map_of cs CACHE_NAME"
proof -
  have "count_list (activate_deletes cs) name =
           (if name \<in> set (caches_keys cs) \<and> name \<noteq> CACHE_NAME then 1 else 0)"
    unfolding activate_deletes_def using assms by (simp add: count_list_filter_distinct)
  moreover have "activate cs = filter (\<lambda>entry. fst entry = CACHE_NAME) cs"
    by (rule activate_keeps_current)
  moreover have "caches_keys (activate cs) = filter (\<lambda>n. n = CACHE_NAME) (caches_keys cs)"
    by (simp add: activate_keeps_current caches_keys_def filter_map comp_def)
  moreover have "map_of (activate cs) CACHE_NAME = map_of cs CACHE_NAME"
    unfolding activate_keeps_current by (induction cs) auto
  ultimately show ?thesis by blast
qed

theorem activate_deletes_stale_once_witness:
  "distinct (caches_keys
      [(js ''stockman-v0'', Map.empty), (CACHE_NAME, [js ''/'' \<mapsto> True]), (js ''tmp'', Map.empty)])
   \<and> count_list (activate_deletes
      [(js ''stockman-v0'', Map.empty), (CACHE_NAME, [js ''/'' \<mapsto> True]), (js ''tmp'', Map.empty)])
        (js ''stockman-v0'') = 1
   \<and> count_list (activate_deletes
      [(js ''stockman-v0'', Map.empty), (CACHE_NAME, [js ''/'' \<mapsto> True]), (js ''tmp'', Map.empty)])
        CACHE_NAME = 0
   \<and> caches_keys (activate
      [(js ''stockman-v0'', Map.empty), (CACHE_NAME, [js ''/'' \<mapsto> True]), (js ''tmp'', Map.empty)])
        = [CACHE_NAME]"
proof -
  let ?cs = "[(js ''stockman-v0'', Map.empty), (CACHE_NAME, [js ''/'' \<mapsto> True]),
              (js ''tmp'', Map.empty)]"
  have d: "distinct (caches_keys ?cs)"
    by (simp add: caches_keys_def CACHE_NAME_def js_def)
  show ?thesis
    using d activate_deletes_stale_once [OF d, of "js ''stockman-v0''"]
      activate_deletes_stale_once [OF d, of CACHE_NAME]
    by (simp add: caches_keys_def CACHE_NAME_def js_def)
qed

text \<open>
  C5. A request whose method is not \<^verbatim>\<open>GET\<close>, or whose URL contains \<^verbatim>\<open>/api/\<close>, is
  not intercepted: the handler returns before \<^verbatim>\<open>event.respondWith\<close>, whatever the
  network then answers the cache storage is the one it was, and the page gets the
  network's own answer, never a cached one.
\<close>

theorem fetch_handler_passes_through:
  assumes "req_method req \<noteq> js ''GET'' \<or> str_includes (req_url req) (js ''/api/'')"
  shows "fetch_handler req net cs = (NotIntercepted, cs)
         \<and> page_sees (fst (fetch_handler req net cs)) net =
             (case net of Some r \<Rightarrow> PageResponse r | None \<Rightarrow> PageNetworkError)"
  using assms by (auto simp: fetch_handler_def split: option.splits)

theorem fetch_handler_passes_through_witness:
  "str_includes (js ''/api/chat'') (js ''/api/'')
   \<and> fetch_handler \<lparr>req_method = js ''GET'', req_url = js ''/api/chat''\<rparr> (Some (200::nat))
        [(CACHE_NAME, [js ''/api/chat'' \<mapsto> 404])]
      = (NotIntercepted, [(CACHE_NAME, [js ''/api/chat'' \<mapsto> 404])])
   \<and> js ''POST'' \<noteq> js ''GET''
   \<and> fetch_handler \<lparr>req_method = js ''POST'', req_url = js ''/index.html''\<rparr> (Some (200::nat))
        [(CACHE_NAME, Map.empty)]
      = (NotIntercepted, [(CACHE_NAME, Map.empty)])"
proof -
  have a: "str_includes (js ''/api/chat'') (js ''/api/'')"
    by (simp add: js_def startsWith_def)
  have b: "js ''POST'' \<noteq> js ''GET''"
    by (simp add: js_def)
  show ?thesis
    using a b
      fetch_handler_passes_through
        [of "\<lparr>req_method = js ''GET'', req_url = js ''/api/chat''\<rparr>" "Some (200::nat)"
            "[(CACHE_NAME, [js ''/api/chat'' \<mapsto> 404])]"]
      fetch_handler_passes_through
        [of "\<lparr>req_method = js ''POST'', req_url = js ''/index.html''\<rparr>" "Some (200::nat)"
            "[(CACHE_NAME, Map.empty)]"]
    by simp
qed

text \<open>
  C3. For an intercepted request (method \<^verbatim>\<open>GET\<close>, no \<^verbatim>\<open>/api/\<close> in the URL) whose
  network fetch fails, the promise given to \<^verbatim>\<open>respondWith\<close> settles with the result
  of \<^verbatim>\<open>caches.match(event.request)\<close> and the cache storage is not written. When no
  cache holds the request that result is \<^verbatim>\<open>undefined\<close>, no response is made up in
  its place, and the page's fetch fails with a network error; when a cache holds it,
  the page gets the stored response.
\<close>

theorem fetch_handler_offline_fallback:
  assumes "req_method req = js ''GET''" and "\<not> str_includes (req_url req) (js ''/api/'')"
  shows "fetch_handler req None cs = (RespondWith (caches_match (req_url req) cs), cs)
         \<and> (caches_match (req_url req) cs = None \<longrightarrow>
              page_sees (fst (fetch_handler req None cs)) None = PageNetworkError)
         \<and> (\<forall>r. caches_match (req_url req) cs = Some r \<longrightarrow>
              page_sees (fst (fetch_handler req None cs)) None = PageResponse r)"
  using assms by (simp add: fetch_handler_def)

theorem fetch_handler_offline_fallback_witness:
  "req_method \<lparr>req_method = js ''GET'', req_url = js ''/index.html''\<rparr> = js ''GET''
   \<and> \<not> str_includes (req_url \<lparr>req_method = js ''GET'', req_url = js ''/index.html''\<rparr>) (js ''/api/'')
   \<and> caches_match (js ''/index.html'') [(CACHE_NAME, [js ''/'' \<mapsto> (1::nat)])] = None
   \<and> page_sees (fst (fetch_handler \<lparr>req_method = js ''GET'', req_url = js ''/index.html''\<rparr> None
        [(CACHE_NAME, [js ''/'' \<mapsto> (1::nat)])])) None = PageNetworkError
   \<and> caches_match (js ''/'') [(CACHE_NAME, [js ''/'' \<mapsto> (1::nat)])] = Some 1
   \<and> page_sees (fst (fetch_handler \<lparr>req_method = js ''GET'', req_url = js ''/''\<rparr> None
        [(CACHE_NAME, [js ''/'' \<mapsto> (1::nat)])])) None = PageResponse 1"
proof -
  have a: "\<not> str_includes (js ''/index.html'') (js ''/api/'')"
    by (simp add: js_def startsWith_def)
  have b: "\<not> str_includes (js ''/'') (js ''/api/'')"
    by (simp add: js_def startsWith_def)
  have c: "caches_match (js ''/index.html'') [(CACHE_NAME, [js ''/'' \<mapsto> (1::nat)])] = None"
    by (simp add: js_def)
  have d: "caches_match (js ''/'') [(CACHE_NAME, [js ''/'' \<mapsto> (1::nat)])] = Some 1"
    by simp
  show ?thesis
    using a b c d
      fetch_handler_offline_fallback
        [of "\<lparr>req_method = js ''GET'', req_url = js ''/index.html''\<rparr>"
            "[(CACHE_NAME, [js ''/'' \<mapsto> (1::nat)])]"]
      fetch_handler_offline_fallback
        [of "\<lparr>req_method = js ''GET'', req_url = js ''/''\<rparr>"
            "[(CACHE_NAME, [js ''/'' \<mapsto> (1::nat)])]"]
    by simp
qed

text \<open>
  C4. When the push has a payload and parsing it as JSON fails, the notification shown
  has the text of the payload as its body, and the default title, icon, badge and
  deep-link data.
\<close>

theorem push_handler_unparsable_payload:
  assumes "parse payload = None"
  shows "push_handler parse (Some payload) =
           \<lparr> n_title = Str (js ''Stockman''),
             n_body = Str payload,
             n_icon = Str (js ''/icons/icon-192.png''),
             n_badge = Str (js ''/icons/icon-72.png''),
             n_vibrate = [100, 50, 100],
             n_data = Obj [(js ''url'', Str (js ''/''))],
             n_actions = [(js ''open'', js ''Open Stockman''), (js ''dismiss'', js ''Dismiss'')],
             n_requireInteraction = False,
             n_tag = js ''stockman-notification'' \<rparr>"
  using assms
  by (simp add: push_handler_def push_data_def push_default_def objGet_def js_def)

theorem push_handler_unparsable_payload_witness:
  "(\<lambda>t. if t = js ''{}'' then Some (Obj []) else None) (js ''AAPL is up'') = None
   \<and> n_body (push_handler (\<lambda>t. if t = js ''{}'' then Some (Obj []) else None)
        (Some (js ''AAPL is up''))) = Str (js ''AAPL is up'')
   \<and> n_title (push_handler (\<lambda>t. if t = js ''{}'' then Some (Obj []) else None)
        (Some (js ''AAPL is up''))) = Str (js ''Stockman'')"
proof -
  have a: "(\<lambda>t. if t = js ''{}'' then Some (Obj []) else None) (js ''AAPL is up'') = None"
    by (simp add: js_def)
  show ?thesis
    using a push_handler_unparsable_payload
      [of "\<lambda>t. if t = js ''{}'' then Some (Obj []) else None" "js ''AAPL is up''", OF a]
    by simp
qed

section \<open>Properties of message formatting and of the chat\<close>

text \<open>The equations that evaluate the substitutions on a given text.\<close>

lemmas regex_defs = js_def m_literal_def startsWith_def m_strong_def m_em_def m_bullet_def
  m_numbered_def m_li_group_def li_one_def li_run.simps ws_line_def isLineTerminator_def
  isWhiteSpace_def isDigit_def escapeMarkup_def markdown_def formatMessage_html_def

subsection \<open>Escaping comes first\<close>

lemma replaceAll_char:
  "replaceAll (m_literal [a] r) bol s = concat (map (\<lambda>c. if c = a then r else [c]) s)"
  by (induction s arbitrary: bol) (auto simp: m_literal_def startsWith_def)

text \<open>
  The text that the markdown substitutions of \<open>formatMessage\<close> work on, which is also the
  text of a user's message between its paragraph tags, has no angle bracket left, and
  every ampersand in it starts one of the three entities.
\<close>

lemma escapeMarkup_chars:
  "escapeMarkup t =
     concat (map (\<lambda>c. if c = 38 then js ''&amp;'' else if c = 60 then js ''&lt;''
                        else if c = 62 then js ''&gt;'' else [c]) t)"
proof -
  have "escapeMarkup t =
          concat (map (\<lambda>c. if c = 62 then js ''&gt;'' else [c])
            (concat (map (\<lambda>c. if c = 60 then js ''&lt;'' else [c])
               (concat (map (\<lambda>c. if c = 38 then js ''&amp;'' else [c]) t)))))"
  proof -
    have "js ''&'' = [38]" and "js ''<'' = [60]" and "js ''>'' = [62]"
      by (simp_all add: js_def)
    then show ?thesis
      by (simp add: escapeMarkup_def replaceAll_char)
  qed
  also have "\<dots> = concat (map (\<lambda>c. if c = 38 then js ''&amp;'' else if c = 60 then js ''&lt;''
                        else if c = 62 then js ''&gt;'' else [c]) t)"
    by (induction t) (simp_all add: js_def)
  finally show ?thesis .
qed

lemma escapeMarkup_no_angle: "60 \<notin> set (escapeMarkup t) \<and> 62 \<notin> set (escapeMarkup t)"
  by (auto simp: escapeMarkup_chars js_def split: if_splits)

lemma formatMessage_escapes_first:
  "formatMessage (Str t) =
     Inr (let html = replaceAll m_li_group True (markdown (escapeMarkup t))
          in if \<not> startsWith html (js ''<'') then js ''<p>'' @ html @ js ''</p>'' else html)"
  by (simp add: formatMessage_html_def)

lemma addMessage_user_escaped:
  "addMessage User (Str t) st =
     ((hideWelcome st)\<lparr>children := children (hideWelcome st)
         @ [Message User (js ''<p>'' @ escapeMarkup t @ js ''</p>'')]\<rparr>, None)"
  by (simp add: addMessage_def Let_def)

text \<open>
  C2. The assistant's message \<^verbatim>\<open>**Buy** AAPL now\<close> is rendered as
  \<^verbatim>\<open><strong>Buy</strong> AAPL now\<close> with no paragraph element around it: the result of
  the substitutions begins with \<^verbatim>\<open><\<close>, so the final test of \<open>formatMessage\<close> leaves it
  as it is. The same text from the user is rendered as \<^verbatim>\<open><p>**Buy** AAPL now</p>\<close>,
  and a message without markup from the assistant does get its paragraph.
\<close>

theorem formatMessage_bold_first_no_paragraph:
  "formatMessage (Str (js ''**Buy** AAPL now'')) = Inr (js ''<strong>Buy</strong> AAPL now'')
   \<and> formatMessage (Str (js ''**Buy** AAPL now''))
       \<noteq> Inr (js ''<p><strong>Buy</strong> AAPL now</p>'')
   \<and> children (fst (addMessage Assistant (Str (js ''**Buy** AAPL now'')) initialPage))
       = [Message Assistant (js ''<strong>Buy</strong> AAPL now'')]
   \<and> children (fst (addMessage User (Str (js ''**Buy** AAPL now'')) initialPage))
       = [Message User (js ''<p>**Buy** AAPL now</p>'')]
   \<and> formatMessage (Str (js ''Buy AAPL now'')) = Inr (js ''<p>Buy AAPL now</p>'')"
proof -
  have a: "formatMessage (Str (js ''**Buy** AAPL now''))
             = Inr (js ''<strong>Buy</strong> AAPL now'')"
    by (simp add: regex_defs)
  have b: "js ''<strong>Buy</strong> AAPL now'' \<noteq> js ''<p><strong>Buy</strong> AAPL now</p>''"
    by (simp add: js_def)
  have c: "children (fst (addMessage Assistant (Str (js ''**Buy** AAPL now'')) initialPage))
             = [Message Assistant (js ''<strong>Buy</strong> AAPL now'')]"
    by (simp add: addMessage_def hideWelcome_def initialPage_def regex_defs)
  have d: "children (fst (addMessage User (Str (js ''**Buy** AAPL now'')) initialPage))
             = [Message User (js ''<p>**Buy** AAPL now</p>'')]"
    by (simp add: addMessage_def hideWelcome_def initialPage_def regex_defs)
  have e: "formatMessage (Str (js ''Buy AAPL now'')) = Inr (js ''<p>Buy AAPL now</p>'')"
    by (simp add: regex_defs)
  from a b c d e show ?thesis by simp
qed

subsection \<open>sendMessage\<close>

lemma messagesOf_children_append:
  "messagesOf r (st\<lparr>children := cs @ [Message r' h]\<rparr>)
     = messagesOf r (st\<lparr>children := cs\<rparr>) @ (if r' = r then [h] else [])"
  by (simp add: messagesOf_def)

lemma messagesOf_cong: "children st = children st' \<Longrightarrow> messagesOf r st = messagesOf r st'"
  by (simp add: messagesOf_def)

lemma children_hideWelcome: "children (hideWelcome st) = children st"
  by (simp add: hideWelcome_def)

lemma messagesOf_showTyping: "messagesOf r (showTyping st) = messagesOf r st"
proof -
  have "\<And>cs. concat (map (\<lambda>n. case n of Message r' h \<Rightarrow> if r' = r then [h] else []
                                 | TypingIndicator \<Rightarrow> [])
                  (filter (\<lambda>n. n \<noteq> TypingIndicator) cs))
           = concat (map (\<lambda>n. case n of Message r' h \<Rightarrow> if r' = r then [h] else []
                                 | TypingIndicator \<Rightarrow> []) cs)"
    subgoal for cs by (induction cs) (auto split: node.splits)
    done
  then show ?thesis by (simp add: messagesOf_def showTyping_def)
qed

lemma addMessage_messagesOf:
  assumes "addMessage r content st = (st', None)"
  shows "\<exists>h. messagesOf r st' = messagesOf r st @ [h]
              \<and> (\<forall>r'. r' \<noteq> r \<longrightarrow> messagesOf r' st' = messagesOf r' st)
              \<and> calls st' = calls st
              \<and> (if r = Assistant then formatMessage content else userContent content) = Inr h"
  using assms
  by (auto simp: addMessage_def Let_def messagesOf_def children_hideWelcome hideWelcome_def
           split: sum.splits if_splits)

lemma addMessage_throws:
  assumes "addMessage r content st = (st', Some e)"
  shows "children st' = children st \<and> calls st' = calls st"
  using assms
  by (auto simp: addMessage_def Let_def hideWelcome_def split: sum.splits if_splits)

lemma messagesOf_issue: "messagesOf r (issue c st) = messagesOf r st"
  by (simp add: messagesOf_def issue_def)

lemma sendMessage_begin_nonempty:
  assumes "trim (messageInput st) \<noteq> []"
  shows "sendMessage_begin st =
           (issue (PostChat (Str (trim (messageInput st))) False)
              (showTyping ((hideWelcome (st\<lparr>messageInput := []\<rparr>))
                 \<lparr>children := children st
                    @ [Message User (js ''<p>'' @ escapeMarkup (trim (messageInput st)) @ js ''</p>'')]\<rparr>)),
            None)"
  using assms
  by (simp add: sendMessage_begin_def Let_def addMessage_user_escaped children_hideWelcome)

lemma sendMessage_begin_entries:
  assumes "trim (messageInput st) \<noteq> []" and "sendMessage_begin st = (st1, e1)"
  shows "e1 = None
         \<and> messagesOf User st1 = messagesOf User st
              @ [js ''<p>'' @ escapeMarkup (trim (messageInput st)) @ js ''</p>'']
         \<and> messagesOf Assistant st1 = messagesOf Assistant st
         \<and> calls st1 = calls st @ [PostChat (Str (trim (messageInput st))) False]"
proof -
  let ?st0 = "(hideWelcome (st\<lparr>messageInput := []\<rparr>))
                 \<lparr>children := children st
                    @ [Message User (js ''<p>'' @ escapeMarkup (trim (messageInput st)) @ js ''</p>'')]\<rparr>"
  have eq: "st1 = issue (PostChat (Str (trim (messageInput st))) False) (showTyping ?st0)"
    and "e1 = None"
    using assms sendMessage_begin_nonempty [OF assms(1)] by simp_all
  have u: "messagesOf User st1 = messagesOf User ?st0"
    unfolding eq by (simp add: messagesOf_issue messagesOf_showTyping)
  have a: "messagesOf Assistant st1 = messagesOf Assistant ?st0"
    unfolding eq by (simp add: messagesOf_issue messagesOf_showTyping)
  have c: "calls st1 = calls st @ [PostChat (Str (trim (messageInput st))) False]"
    unfolding eq by (simp add: issue_def showTyping_def hideWelcome_def)
  have u0: "messagesOf User ?st0 = messagesOf User st
              @ [js ''<p>'' @ escapeMarkup (trim (messageInput st)) @ js ''</p>'']"
    by (simp add: messagesOf_def)
  have a0: "messagesOf Assistant ?st0 = messagesOf Assistant st"
    by (simp add: messagesOf_def)
  show ?thesis
    using u a c u0 a0 \<open>e1 = None\<close> by simp
qed

lemma addMessage_assistant:
  "addMessage Assistant v st =
     (case formatMessage v of
        Inl e \<Rightarrow> (hideWelcome st, Some e)
      | Inr h \<Rightarrow> ((hideWelcome st)\<lparr>children := children st @ [Message Assistant h]\<rparr>, None))"
  by (simp add: addMessage_def Let_def children_hideWelcome split: sum.splits)

lemma messagesOf_hideWelcome: "messagesOf r (hideWelcome st) = messagesOf r st"
  by (simp add: messagesOf_def children_hideWelcome)

lemma messagesOf_hideTyping: "messagesOf r (hideTyping st) = messagesOf r st"
  by (simp add: messagesOf_def hideTyping_def)

lemma messagesOf_add:
  "messagesOf r ((hideWelcome st)\<lparr>children := children st @ [Message r' h]\<rparr>)
     = messagesOf r st @ (if r' = r then [h] else [])"
  by (simp add: messagesOf_def)

lemma calls_simps:
  "calls (hideWelcome st) = calls st" "calls (hideTyping st) = calls st"
  "calls (showTyping st) = calls st"
  by (simp_all add: hideWelcome_def hideTyping_def showTyping_def)

lemma apology_entry:
  "addMessage Assistant (Str t) st = (st', e) \<Longrightarrow>
     e = None \<and> messagesOf Assistant st' = messagesOf Assistant st @ [formatMessage_html t]
     \<and> messagesOf User st' = messagesOf User st \<and> calls st' = calls st"
  by (auto simp: addMessage_assistant messagesOf_add calls_simps)

lemma sendMessage_try_entries:
  assumes "sendMessage_try out st = (st', e)"
  shows "messagesOf User st' = messagesOf User st \<and> calls st' = calls st
         \<and> (e \<noteq> None \<longrightarrow> messagesOf Assistant st' = messagesOf Assistant st)
         \<and> (e = None \<longrightarrow> (\<exists>r data reply. out = Some r \<and> resp_json r = Some data
               \<and> getProp data (js ''reply'') = Inr reply
               \<and> (if truthy reply
                   then (\<exists>h. formatMessage reply = Inr h
                           \<and> messagesOf Assistant st' = messagesOf Assistant st @ [h])
                   else messagesOf Assistant st' = messagesOf Assistant st)))"
  using assms
  by (auto simp: sendMessage_try_def Let_def addMessage_assistant messagesOf_add
        messagesOf_hideTyping messagesOf_hideWelcome calls_simps
      split: option.splits sum.splits if_splits)
lemma sendMessage_resume_entries:
  assumes "sendMessage_resume out st = (st', e)"
  shows "e = None \<and> messagesOf User st' = messagesOf User st \<and> calls st' = calls st
         \<and> length (messagesOf Assistant st') \<le> length (messagesOf Assistant st) + 1
         \<and> (out = None \<or> (\<exists>r. out = Some r \<and> resp_json r = None) \<longrightarrow>
               messagesOf Assistant st' = messagesOf Assistant st @ [formatMessage_html chatApology])
         \<and> (\<forall>r data s. out = Some r \<and> resp_json r = Some data
                \<and> getProp data (js ''reply'') = Inr (Str s) \<and> s \<noteq> [] \<longrightarrow>
               messagesOf Assistant st' = messagesOf Assistant st @ [formatMessage_html s])
         \<and> (\<forall>r data reply. out = Some r \<and> resp_json r = Some data
                \<and> getProp data (js ''reply'') = Inr reply \<and> \<not> truthy reply \<longrightarrow>
               messagesOf Assistant st' = messagesOf Assistant st)"
proof -
  obtain st1 e1 where t: "sendMessage_try out st = (st1, e1)"
    by (cases "sendMessage_try out st")
  note te = sendMessage_try_entries [OF t]
  show ?thesis
  proof (cases e1)
    case None
    with t assms have eq: "st' = st1" "e = None"
      by (simp_all add: sendMessage_resume_def)
    from te None obtain r data reply where
      o: "out = Some r" "resp_json r = Some data" "getProp data (js ''reply'') = Inr reply"
      and m: "if truthy reply
              then (\<exists>h. formatMessage reply = Inr h
                      \<and> messagesOf Assistant st1 = messagesOf Assistant st @ [h])
              else messagesOf Assistant st1 = messagesOf Assistant st"
      by auto
    show ?thesis
      using te o m eq by (cases reply) (auto split: if_splits)
  next
    case (Some err)
    with t assms have a: "addMessage Assistant (Str chatApology) (hideTyping st1) = (st', e)"
      by (simp add: sendMessage_resume_def)
    note ap = apology_entry [OF a]
    have no: "\<not> (\<exists>r data reply. out = Some r \<and> resp_json r = Some data
                 \<and> getProp data (js ''reply'') = Inr reply
                 \<and> (truthy reply \<longrightarrow> (\<exists>s. reply = Str s)))"
      using t Some
      by (auto simp: sendMessage_try_def Let_def addMessage_assistant
               split: option.splits sum.splits if_splits)
    show ?thesis
      using te ap Some no by (auto simp: messagesOf_hideTyping calls_simps)
  qed
qed
lemma messagesOf_v3_simps:
  "messagesOf r (showLoading st) = messagesOf r st"
  "messagesOf r (hideLoading st) = messagesOf r st"
  "messagesOf r (addMessage_v3 r' v st) = messagesOf r st @ (if r' = r then [escapeHtml v] else [])"
  by (simp_all add: messagesOf_def showLoading_def hideLoading_def addMessage_v3_def)

lemma calls_v3_simps:
  "calls (showLoading st) = calls st" "calls (hideLoading st) = calls st"
  "calls (addMessage_v3 r v st) = calls st" "calls (issue c st) = calls st @ [c]"
  by (simp_all add: showLoading_def hideLoading_def addMessage_v3_def issue_def)

lemma sendMessage_begin_v3_entries:
  assumes "trim (messageInput st) \<noteq> []"
  shows "messagesOf User (sendMessage_begin_v3 st)
           = messagesOf User st @ [serializeText (trim (messageInput st))]
         \<and> messagesOf Assistant (sendMessage_begin_v3 st) = messagesOf Assistant st
         \<and> calls (sendMessage_begin_v3 st)
             = calls st @ [PostChat (Str (trim (messageInput st))) False]"
proof -
  have "messagesOf r (st\<lparr>messageInput := []\<rparr>) = messagesOf r st" for r
    by (simp add: messagesOf_def)
  then show ?thesis
    using assms
    by (simp add: sendMessage_begin_v3_def Let_def messagesOf_issue messagesOf_v3_simps
          calls_v3_simps escapeHtml_def)
qed

lemma sendMessage_resume_v3_entries:
  "messagesOf User (sendMessage_resume_v3 out st) = messagesOf User st
   \<and> calls (sendMessage_resume_v3 out st) = calls st
   \<and> length (messagesOf Assistant (sendMessage_resume_v3 out st))
       \<le> length (messagesOf Assistant st) + 1
   \<and> (out = None \<or> (\<exists>r. out = Some r \<and> resp_json r = None) \<longrightarrow>
         messagesOf Assistant (sendMessage_resume_v3 out st)
           = messagesOf Assistant st @ [escapeHtml (Str chatApology)])
   \<and> (\<forall>r data reply. out = Some r \<and> resp_json r = Some data
          \<and> getProp data (js ''reply'') = Inr reply \<and> truthy reply \<longrightarrow>
         messagesOf Assistant (sendMessage_resume_v3 out st)
           = messagesOf Assistant st @ [escapeHtml reply])
   \<and> (\<forall>r data reply. out = Some r \<and> resp_json r = Some data
          \<and> getProp data (js ''reply'') = Inr reply \<and> \<not> truthy reply \<longrightarrow>
         messagesOf Assistant (sendMessage_resume_v3 out st) = messagesOf Assistant st)"
  by (auto simp: sendMessage_resume_v3_def sendMessage_try_v3_def messagesOf_v3_simps
        calls_v3_simps split: option.splits sum.splits)

text \<open>
  C1, as the code has it. When the trimmed input is not empty, \<open>sendMessage\<close> appends
  exactly one user entry (and no assistant entry) before the chat request settles, in
  both versions. Once the request has settled it appends no further user entry and at
  most one assistant entry: exactly one, the fixed apology, when the call fails (the
  fetch rejects or the body is no JSON); exactly one, the reply, when the call succeeds
  with a non-empty string as its reply; none when it succeeds with a reply that is
  absent or falsy.
\<close>

theorem sendMessage_appends:
  assumes "trim (messageInput st) \<noteq> []"
    and "sendMessage_begin st = (st1, e1)"
    and "sendMessage_resume out st1 = (st2, e2)"
    and "w1 = sendMessage_begin_v3 st"
    and "w2 = sendMessage_resume_v3 out w1"
  shows "(e1 = None \<and> sendMessage_awaits st
          \<and> messagesOf User st1 = messagesOf User st
               @ [js ''<p>'' @ escapeMarkup (trim (messageInput st)) @ js ''</p>'']
          \<and> messagesOf Assistant st1 = messagesOf Assistant st
          \<and> calls st1 = calls st @ [PostChat (Str (trim (messageInput st))) False]
          \<and> e2 = None \<and> messagesOf User st2 = messagesOf User st1 \<and> calls st2 = calls st1
          \<and> length (messagesOf Assistant st2) \<le> length (messagesOf Assistant st1) + 1
          \<and> (out = None \<or> (\<exists>r. out = Some r \<and> resp_json r = None) \<longrightarrow>
                messagesOf Assistant st2
                  = messagesOf Assistant st1 @ [formatMessage_html chatApology])
          \<and> (\<forall>r data s. out = Some r \<and> resp_json r = Some data
                 \<and> getProp data (js ''reply'') = Inr (Str s) \<and> s \<noteq> [] \<longrightarrow>
                messagesOf Assistant st2 = messagesOf Assistant st1 @ [formatMessage_html s])
          \<and> (\<forall>r data reply. out = Some r \<and> resp_json r = Some data
                 \<and> getProp data (js ''reply'') = Inr reply \<and> \<not> truthy reply \<longrightarrow>
                messagesOf Assistant st2 = messagesOf Assistant st1))
       \<and> (messagesOf User w1 = messagesOf User st @ [serializeText (trim (messageInput st))]
          \<and> messagesOf Assistant w1 = messagesOf Assistant st
          \<and> calls w1 = calls st @ [PostChat (Str (trim (messageInput st))) False]
          \<and> messagesOf User w2 = messagesOf User w1 \<and> calls w2 = calls w1
          \<and> length (messagesOf Assistant w2) \<le> length (messagesOf Assistant w1) + 1
          \<and> (out = None \<or> (\<exists>r. out = Some r \<and> resp_json r = None) \<longrightarrow>
                messagesOf Assistant w2 = messagesOf Assistant w1 @ [escapeHtml (Str chatApology)])
          \<and> (\<forall>r data s. out = Some r \<and> resp_json r = Some data
                 \<and> getProp data (js ''reply'') = Inr (Str s) \<and> s \<noteq> [] \<longrightarrow>
                messagesOf Assistant w2 = messagesOf Assistant w1 @ [escapeHtml (Str s)])
          \<and> (\<forall>r data reply. out = Some r \<and> resp_json r = Some data
                 \<and> getProp data (js ''reply'') = Inr reply \<and> \<not> truthy reply \<longrightarrow>
                messagesOf Assistant w2 = messagesOf Assistant w1))"
proof -
  have v1a: "e1 = None \<and> messagesOf User st1 = messagesOf User st
               @ [js ''<p>'' @ escapeMarkup (trim (messageInput st)) @ js ''</p>'']
          \<and> messagesOf Assistant st1 = messagesOf Assistant st
          \<and> calls st1 = calls st @ [PostChat (Str (trim (messageInput st))) False]"
    by (rule sendMessage_begin_entries [OF assms(1,2)])
  have aw: "sendMessage_awaits st"
    using assms(1) by (simp add: sendMessage_awaits_def)
  note v1b = sendMessage_resume_entries [OF assms(3)]
  note v3a = sendMessage_begin_v3_entries [OF assms(1), folded assms(4)]
  note v3b = sendMessage_resume_v3_entries [of out w1, folded assms(5)]
  have v3c: "\<forall>r data s. out = Some r \<and> resp_json r = Some data
                 \<and> getProp data (js ''reply'') = Inr (Str s) \<and> s \<noteq> [] \<longrightarrow>
                messagesOf Assistant w2 = messagesOf Assistant w1 @ [escapeHtml (Str s)]"
  proof (intro allI impI)
    fix r data s
    assume h: "out = Some r \<and> resp_json r = Some data
                 \<and> getProp data (js ''reply'') = Inr (Str s) \<and> s \<noteq> []"
    then have "truthy (Str s)" by simp
    with h v3b show "messagesOf Assistant w2 = messagesOf Assistant w1 @ [escapeHtml (Str s)]"
      by blast
  qed
  show ?thesis
    using v1a aw v1b v3a v3b v3c by blast
qed

lemmas page_defs = initialPage_def issue_def messagesOf_def showTyping_def hideTyping_def
  showLoading_def hideLoading_def hideWelcome_def addMessage_def addMessage_v3_def
  escapeHtml_def serializeText_def objGet_def trim_def chatApology_def

theorem sendMessage_failure_counterexample:
  "trim (messageInput (initialPage\<lparr>messageInput := js ''hi''\<rparr>)) \<noteq> []
   \<and> messagesOf Assistant (initialPage\<lparr>messageInput := js ''hi''\<rparr>) = []
   \<and> messagesOf Assistant (fst (sendMessage None (initialPage\<lparr>messageInput := js ''hi''\<rparr>)))
       = [js ''<p>Sorry, I encountered an error. Please try again.</p>'']
   \<and> messagesOf Assistant (sendMessage_v3 None (initialPage\<lparr>messageInput := js ''hi''\<rparr>))
       = [js ''Sorry, I encountered an error. Please try again.'']"
proof -
  have a: "trim (messageInput (initialPage\<lparr>messageInput := js ''hi''\<rparr>)) = js ''hi''"
    by (simp add: page_defs regex_defs)
  have f: "formatMessage_html chatApology
             = js ''<p>Sorry, I encountered an error. Please try again.</p>''"
    by (simp add: chatApology_def regex_defs)
  have b: "messagesOf Assistant (initialPage\<lparr>messageInput := js ''hi''\<rparr>) = []"
    by (simp add: page_defs)
  have c: "messagesOf Assistant (fst (sendMessage None (initialPage\<lparr>messageInput := js ''hi''\<rparr>)))
       = [js ''<p>Sorry, I encountered an error. Please try again.</p>'']"
    using a f
    by (simp add: sendMessage_def sendMessage_begin_def sendMessage_awaits_def
          sendMessage_resume_def sendMessage_try_def Let_def addMessage_user_escaped
          addMessage_assistant messagesOf_def issue_def showTyping_def hideTyping_def
          hideWelcome_def initialPage_def js_def trim_def)
  have d: "messagesOf Assistant (sendMessage_v3 None (initialPage\<lparr>messageInput := js ''hi''\<rparr>))
       = [js ''Sorry, I encountered an error. Please try again.'']"
    using a
    by (simp add: sendMessage_v3_def sendMessage_begin_v3_def sendMessage_awaits_def
          sendMessage_resume_v3_def sendMessage_try_v3_def Let_def page_defs js_def)
  from a b c d show ?thesis by (simp add: js_def)
qed
theorem sendMessage_appends_witness:
  "trim (messageInput (initialPage\<lparr>messageInput := js '' hi ''\<rparr>)) \<noteq> []
   \<and> messagesOf User (fst (sendMessage_begin (initialPage\<lparr>messageInput := js '' hi ''\<rparr>)))
       = [js ''<p>hi</p>'']
   \<and> messagesOf Assistant (fst (sendMessage_begin (initialPage\<lparr>messageInput := js '' hi ''\<rparr>)))
       = []
   \<and> messagesOf Assistant (fst (sendMessage_resume None
         (fst (sendMessage_begin (initialPage\<lparr>messageInput := js '' hi ''\<rparr>)))))
       = [js ''<p>Sorry, I encountered an error. Please try again.</p>'']
   \<and> messagesOf Assistant (fst (sendMessage_resume
         (Some \<lparr>resp_ok = True, resp_json = Some (Obj [(js ''reply'', Str (js ''ok''))])\<rparr>)
         (fst (sendMessage_begin (initialPage\<lparr>messageInput := js '' hi ''\<rparr>)))))
       = [js ''<p>ok</p>'']
   \<and> messagesOf Assistant (fst (sendMessage_resume
         (Some \<lparr>resp_ok = True, resp_json = Some (Obj [])\<rparr>)
         (fst (sendMessage_begin (initialPage\<lparr>messageInput := js '' hi ''\<rparr>)))))
       = []
   \<and> messagesOf Assistant (sendMessage_resume_v3
         (Some \<lparr>resp_ok = True, resp_json = Some (Obj [(js ''reply'', Str (js ''ok''))])\<rparr>)
         (sendMessage_begin_v3 (initialPage\<lparr>messageInput := js '' hi ''\<rparr>)))
       = [js ''ok'']"
proof -
  let ?p = "initialPage\<lparr>messageInput := js '' hi ''\<rparr>"
  let ?ok = "Some \<lparr>resp_ok = True, resp_json = Some (Obj [(js ''reply'', Str (js ''ok''))])\<rparr>"
  let ?none = "Some \<lparr>resp_ok = True, resp_json = Some (Obj [])\<rparr>"
  have t: "trim (messageInput ?p) = js ''hi''"
    by (simp add: page_defs regex_defs)
  then have h: "trim (messageInput ?p) \<noteq> []"
    by (simp add: js_def)
  have m: "messagesOf User ?p = []" "messagesOf Assistant ?p = []"
    by (simp_all add: page_defs)
  have e: "escapeMarkup (js ''hi'') = js ''hi''"
    by (simp add: regex_defs)
  have f: "formatMessage_html chatApology
             = js ''<p>Sorry, I encountered an error. Please try again.</p>''"
          "formatMessage_html (js ''ok'') = js ''<p>ok</p>''"
    by (simp_all add: chatApology_def regex_defs)
  have g: "getProp (Obj [(js ''reply'', Str (js ''ok''))]) (js ''reply'') = Inr (Str (js ''ok''))"
          "getProp (Obj []) (js ''reply'') = Inr Undefined" "js ''ok'' \<noteq> []"
          "escapeHtml (Str (js ''ok'')) = js ''ok''"
    by (simp_all add: objGet_def escapeHtml_def serializeText_def js_def)
  note A = sendMessage_appends [OF h prod.collapse [symmetric] prod.collapse [symmetric] refl refl]
  have 1: "messagesOf User (fst (sendMessage_begin ?p)) = [js ''<p>hi</p>'']"
          "messagesOf Assistant (fst (sendMessage_begin ?p)) = []"
    using A [of None] t m e by (simp_all add: js_def)
  have 2: "messagesOf Assistant (fst (sendMessage_resume None (fst (sendMessage_begin ?p))))
             = [js ''<p>Sorry, I encountered an error. Please try again.</p>'']"
    using A [of None] 1 f by simp
  have 3: "messagesOf Assistant (fst (sendMessage_resume ?ok (fst (sendMessage_begin ?p))))
             = [js ''<p>ok</p>'']"
    using A [of ?ok] 1 f g by simp
  have 4: "messagesOf Assistant (fst (sendMessage_resume ?none (fst (sendMessage_begin ?p)))) = []"
    using A [of ?none] 1 g by simp
  have 5: "messagesOf Assistant (sendMessage_resume_v3 ?ok (sendMessage_begin_v3 ?p)) = [js ''ok'']"
    using A [of ?ok] m g by simp
  from h 1 2 3 4 5 show ?thesis by simp
qed
section \<open>Properties of the voice controller\<close>

subsection \<open>What processVoice leaves alone\<close>

lemma addMessage_frame:
  assumes "addMessage r v st = (st', e)"
  shows "trackLive st' = trackLive st \<and> calls st' = calls st"
  using assms
  by (auto simp: addMessage_def Let_def hideWelcome_def split: sum.splits if_splits)

lemma addMessage_Str_returns: "snd (addMessage Assistant (Str t) st) = None"
  by (simp add: addMessage_assistant)

lemma typing_frame:
  "trackLive (showTyping st) = trackLive st" "trackLive (hideTyping st) = trackLive st"
  "trackLive (issue c st) = trackLive st"
  "trackLive (showLoading st) = trackLive st" "trackLive (hideLoading st) = trackLive st"
  "trackLive (addMessage_v3 r v st) = trackLive st"
  by (simp_all add: showTyping_def hideTyping_def issue_def showLoading_def hideLoading_def
        addMessage_v3_def)

lemma speakResponse_frame:
  "trackLive (speakResponse text out playOk st) = trackLive st
   \<and> calls (speakResponse text out playOk st) = calls st @ [PostSynthesize text]
   \<and> children (speakResponse text out playOk st) = children st"
  by (simp add: speakResponse_def useBrowserSpeech_def issue_def Let_def
           split: sum.splits option.splits)

lemma speakResponse_v3_frame:
  "trackLive (speakResponse_v3 text out st) = trackLive st
   \<and> calls (speakResponse_v3 text out st) = calls st @ [PostSynthesize text]
   \<and> children (speakResponse_v3 text out st) = children st"
  by (simp add: speakResponse_v3_def issue_def Let_def split: sum.splits option.splits)

lemma processVoice_chat_frame:
  assumes "processVoice_chat text chat syn playOk st = (st', e)"
  shows "trackLive st' = trackLive st \<and> (\<exists>cs. calls st' = calls st @ cs)"
proof -
  obtain st1 e1 where a1: "addMessage User text (hideTyping st) = (st1, e1)"
    by (cases "addMessage User text (hideTyping st)")
  note f1 = addMessage_frame [OF a1]
  show ?thesis
  proof (cases e1)
    case (Some err)
    with a1 assms f1 show ?thesis
      by (simp add: processVoice_chat_def typing_frame calls_simps)
  next
    case None
    let ?st2 = "issue (PostChat text True) (showTyping st1)"
    have f2: "trackLive ?st2 = trackLive st" "calls ?st2 = calls st @ [PostChat text True]"
      using f1 by (simp_all add: typing_frame calls_simps calls_v3_simps)
    show ?thesis
    proof (cases "\<exists>r d reply. chat = Some r \<and> resp_json r = Some d
                    \<and> getProp d (js ''reply'') = Inr reply")
      case False
      then have "processVoice_chat text chat syn playOk st = (?st2, e)"
        using a1 None assms
        by (auto simp: processVoice_chat_def Let_def split: option.splits sum.splits)
      with assms f2 show ?thesis by simp
    next
      case True
      then obtain r d reply where c: "chat = Some r" "resp_json r = Some d"
        "getProp d (js ''reply'') = Inr reply" by blast
      obtain st3 e3 where a3: "addMessage Assistant reply (hideTyping ?st2) = (st3, e3)"
        by (cases "addMessage Assistant reply (hideTyping ?st2)")
      note f3 = addMessage_frame [OF a3]
      show ?thesis
        using a1 None c a3 f3 f2 assms speakResponse_frame [of reply syn playOk st3]
        by (cases e3)
           (auto simp: processVoice_chat_def Let_def typing_frame calls_simps)
    qed
  qed
qed

lemma processVoice_try_frame:
  assumes "processVoice_try audioBlob m tr chat syn playOk st = (st', e)"
  shows "trackLive st' = trackLive st
         \<and> (\<exists>cs. calls st' = calls st @ PostTranscribe audioBlob # cs)"
proof -
  let ?st1 = "issue (PostTranscribe audioBlob) st"
  have f1: "trackLive ?st1 = trackLive st" "calls ?st1 = calls st @ [PostTranscribe audioBlob]"
    by (simp_all add: typing_frame calls_v3_simps)
  have am: "\<And>t s' e'. addMessage Assistant (Str t) (hideTyping ?st1) = (s', e') \<Longrightarrow>
              trackLive s' = trackLive st \<and> calls s' = calls st @ [PostTranscribe audioBlob]"
    using f1 by (auto dest!: addMessage_frame simp: typing_frame calls_simps)
  have ch: "\<And>text s' e'. processVoice_chat text chat syn playOk ?st1 = (s', e') \<Longrightarrow>
              trackLive s' = trackLive st
              \<and> (\<exists>cs. calls s' = calls st @ PostTranscribe audioBlob # cs)"
    using f1 by (auto dest!: processVoice_chat_frame)
  have tx: "trackLive (hideTyping (?st1\<lparr>messageInput := t, inputFocused := True\<rparr>)) = trackLive st
            \<and> calls (hideTyping (?st1\<lparr>messageInput := t, inputFocused := True\<rparr>))
                = calls st @ [PostTranscribe audioBlob]" for t
    by (simp add: hideTyping_def issue_def)
  show ?thesis
    using assms f1 am ch tx
    unfolding processVoice_try_def Let_def
    by (auto split: option.splits sum.splits if_splits)
qed

lemma processVoice_returns:
  "\<exists>st'. processVoice audioBlob m tr chat syn playOk st = (st', None)
         \<and> trackLive st' = trackLive st
         \<and> (\<exists>cs. calls st' = calls st @ PostTranscribe audioBlob # cs)"
proof -
  obtain st1 e1 where t: "processVoice_try audioBlob m tr chat syn playOk (showTyping st) = (st1, e1)"
    by (cases "processVoice_try audioBlob m tr chat syn playOk (showTyping st)")
  from processVoice_try_frame [OF t]
  have f: "trackLive st1 = trackLive st"
    "\<exists>cs. calls st1 = calls st @ PostTranscribe audioBlob # cs"
    by (simp_all add: typing_frame calls_simps)
  show ?thesis
  proof (cases e1)
    case None
    with t f show ?thesis by (simp add: processVoice_def)
  next
    case (Some err)
    obtain st2 e2 where a: "addMessage Assistant (Str (voiceApology m)) (hideTyping st1) = (st2, e2)"
      by (cases "addMessage Assistant (Str (voiceApology m)) (hideTyping st1)")
    have "e2 = None"
      using a addMessage_Str_returns [of "voiceApology m" "hideTyping st1"] by simp
    with a t Some f addMessage_frame [OF a] show ?thesis
      by (simp add: processVoice_def typing_frame calls_simps)
  qed
qed

lemma processVoice_v3_frame:
  "trackLive (processVoice_v3 audioBlob m tr chat syn st) = trackLive st
   \<and> (\<exists>cs. calls (processVoice_v3 audioBlob m tr chat syn st)
              = calls st @ PostTranscribe audioBlob # cs)"
  using speakResponse_v3_frame
  by (auto simp: processVoice_v3_def processVoice_try_v3_def Let_def typing_frame
        calls_v3_simps split: option.splits sum.splits)

lemma fold_ondataavailable:
  "fold ondataavailable chunks st = st\<lparr>audioChunks := audioChunks st @ chunks\<rparr>"
  by (induction chunks arbitrary: st) (simp_all add: ondataavailable_def)

text \<open>
  A session up to its stop: after \<open>startVoice\<close> got a stream of \<open>n\<close> tracks and the
  recorder delivered \<open>chunks\<close>, \<open>stopVoice\<close> stops that recorder, the chunks
  accumulated are exactly those delivered and the tracks are all still live.
\<close>

lemma stopVoice_after_recording:
  "stopVoice (fold ondataavailable chunks (startVoice m (Some (sid, n)) st))
     = ((fold ondataavailable chunks (startVoice m (Some (sid, n)) st))\<lparr>isRecording := False\<rparr>,
        Some \<lparr>rec_stream = sid, rec_mode = m\<rparr>)
   \<and> audioChunks (fst (stopVoice (fold ondataavailable chunks (startVoice m (Some (sid, n)) st))))
       = chunks
   \<and> trackLive (fst (stopVoice (fold ondataavailable chunks (startVoice m (Some (sid, n)) st)))) sid
       = replicate n True"
  by (simp add: fold_ondataavailable stopVoice_def startVoice_def Let_def)

text \<open>
  C8. Whatever the transcription, chat and synthesis requests come to, and in either
  mode, the \<^verbatim>\<open>onstop\<close> handler of a recorder runs to its end without an error
  escaping; the audio it submits is one blob, the concatenation of the chunks
  accumulated, of type \<^verbatim>\<open>audio/webm\<close>; and afterwards every track of the recorder's
  stream is stopped. This holds for the first and for the third version.
\<close>

theorem onstop_releases_tracks:
  "snd (onstop r tr chat syn playOk st) = None
   \<and> trackLive (fst (onstop r tr chat syn playOk st)) (rec_stream r)
       = replicate (length (trackLive st (rec_stream r))) False
   \<and> (\<exists>cs. calls (fst (onstop r tr chat syn playOk st))
         = calls st @ PostTranscribe (Blob (concat (audioChunks st)) (js ''audio/webm'')) # cs)
   \<and> trackLive (onstop_v3 r tr chat syn st) (rec_stream r)
       = replicate (length (trackLive st (rec_stream r))) False
   \<and> (\<exists>cs. calls (onstop_v3 r tr chat syn st)
         = calls st @ PostTranscribe (Blob (concat (audioChunks st)) (js ''audio/webm'')) # cs)"
proof -
  let ?blob = "Blob (concat (audioChunks st)) (js ''audio/webm'')"
  let ?st1 = "st\<lparr>voiceStatus := js ''Processing...''\<rparr>"
  obtain st2 cs where p: "processVoice ?blob (rec_mode r) tr chat syn playOk ?st1 = (st2, None)"
    and f: "trackLive st2 = trackLive ?st1" "calls st2 = calls ?st1 @ PostTranscribe ?blob # cs"
    using processVoice_returns [of ?blob "rec_mode r" tr chat syn playOk ?st1] by blast
  have o: "onstop r tr chat syn playOk st
             = ((stopTracks (rec_stream r) st2)\<lparr>voiceModalHidden := True\<rparr>, None)"
    using p by (simp add: onstop_def Let_def)
  have v1: "snd (onstop r tr chat syn playOk st) = None
     \<and> trackLive (fst (onstop r tr chat syn playOk st)) (rec_stream r)
         = replicate (length (trackLive st (rec_stream r))) False
     \<and> (\<exists>cs. calls (fst (onstop r tr chat syn playOk st)) = calls st @ PostTranscribe ?blob # cs)"
    unfolding o using f by (simp add: stopTracks_def map_replicate_const)
  note g = processVoice_v3_frame [of ?blob "rec_mode r" tr chat syn st]
  have v3: "trackLive (onstop_v3 r tr chat syn st) (rec_stream r)
         = replicate (length (trackLive st (rec_stream r))) False
     \<and> (\<exists>cs. calls (onstop_v3 r tr chat syn st) = calls st @ PostTranscribe ?blob # cs)"
    using g by (simp add: onstop_v3_def Let_def stopTracks_def map_replicate_const)
  from v1 v3 show ?thesis by blast
qed

subsection \<open>The reply of a voice chat\<close>

lemma addMessage_assistant_not_string:
  assumes "\<forall>s. reply \<noteq> Str s"
  shows "addMessage Assistant reply st = (hideWelcome st, Some TypeError)"
  using assms by (cases reply) (simp_all add: addMessage_assistant)

lemma processVoice_chat_reply:
  assumes "chat = Some cresp" and "resp_json cresp = Some cd"
    and "getProp cd (js ''reply'') = Inr reply"
  shows "processVoice_chat (Str t) chat syn playOk st =
           (case addMessage Assistant reply
                   (hideTyping (issue (PostChat (Str t) True)
                      (showTyping (fst (addMessage User (Str t) (hideTyping st)))))) of
              (st3, Some e) \<Rightarrow> (st3, Some e)
            | (st3, None) \<Rightarrow> (speakResponse reply syn playOk st3, None))"
  using assms by (simp add: processVoice_chat_def addMessage_user_escaped Let_def)

lemma processVoice_try_chat:
  assumes "tr = Some tresp" and "resp_ok tresp" and "resp_json tresp = Some td"
    and "getProp td (js ''text'') = Inr (Str t)" and "trim t \<noteq> []"
  shows "processVoice_try audioBlob Chat tr chat syn playOk st
           = processVoice_chat (Str t) chat syn playOk (issue (PostTranscribe audioBlob) st)"
proof -
  have "t \<noteq> []" using assms(5) by (auto simp: trim_def)
  then show ?thesis
    using assms by (simp add: processVoice_try_def Let_def)
qed
lemma messagesOf_speakResponse:
  "messagesOf r (speakResponse text out playOk st) = messagesOf r st"
  "messagesOf r (speakResponse_v3 text out st) = messagesOf r st"
  using speakResponse_frame [of "text" out playOk st] speakResponse_v3_frame [of "text" out st]
  by (simp_all add: messagesOf_def)

lemma processVoice_chat_string_reply:
  assumes "tr = Some tresp" and "resp_ok tresp" and "resp_json tresp = Some td"
    and "getProp td (js ''text'') = Inr (Str t)" and "trim t \<noteq> []"
    and "chat = Some cresp" and "resp_json cresp = Some cd"
    and "getProp cd (js ''reply'') = Inr (Str s)"
    and "processVoice audioBlob Chat tr chat syn playOk st = (st', e)"
  shows "e = None
         \<and> messagesOf User st' = messagesOf User st @ [js ''<p>'' @ escapeMarkup t @ js ''</p>'']
         \<and> messagesOf Assistant st' = messagesOf Assistant st @ [formatMessage_html s]
         \<and> calls st' = calls st
              @ [PostTranscribe audioBlob, PostChat (Str t) True, PostSynthesize (Str s)]"
  using assms(9)
  unfolding processVoice_def processVoice_try_chat [OF assms(1-5)]
    processVoice_chat_reply [OF assms(6-8)]
  by (auto simp: addMessage_assistant addMessage_user_escaped messagesOf_add
        messagesOf_showTyping messagesOf_hideTyping messagesOf_issue messagesOf_speakResponse
        messagesOf_hideWelcome children_hideWelcome calls_simps calls_v3_simps
        speakResponse_frame
        messagesOf_cong [of "_\<lparr>children := _\<rparr>"])

lemma processVoice_chat_other_reply:
  assumes "tr = Some tresp" and "resp_ok tresp" and "resp_json tresp = Some td"
    and "getProp td (js ''text'') = Inr (Str t)" and "trim t \<noteq> []"
    and "chat = Some cresp" and "resp_json cresp = Some cd"
    and "getProp cd (js ''reply'') = Inr reply" and "\<forall>s. reply \<noteq> Str s"
    and "processVoice audioBlob Chat tr chat syn playOk st = (st', e)"
  shows "e = None
         \<and> messagesOf User st' = messagesOf User st @ [js ''<p>'' @ escapeMarkup t @ js ''</p>'']
         \<and> messagesOf Assistant st'
             = messagesOf Assistant st @ [formatMessage_html (voiceApology Chat)]
         \<and> calls st' = calls st @ [PostTranscribe audioBlob, PostChat (Str t) True]"
  using assms(10)
  unfolding processVoice_def processVoice_try_chat [OF assms(1-5)]
    processVoice_chat_reply [OF assms(6-8)] addMessage_assistant_not_string [OF assms(9)]
  by (auto simp: addMessage_assistant addMessage_user_escaped messagesOf_add
        messagesOf_showTyping messagesOf_hideTyping messagesOf_issue
        messagesOf_hideWelcome children_hideWelcome calls_simps calls_v3_simps
        messagesOf_cong [of "_\<lparr>children := _\<rparr>"])

lemma processVoice_v3_chat_reply:
  assumes "tr = Some tresp" and "resp_json tresp = Some td"
    and "getProp td (js ''text'') = Inr ttext" and "truthy ttext"
    and "chat = Some cresp" and "resp_json cresp = Some cd"
    and "getProp cd (js ''reply'') = Inr reply"
  shows "messagesOf User (processVoice_v3 audioBlob Chat tr chat syn st)
           = messagesOf User st @ [escapeHtml ttext]
         \<and> messagesOf Assistant (processVoice_v3 audioBlob Chat tr chat syn st)
             = messagesOf Assistant st @ [escapeHtml reply]
         \<and> calls (processVoice_v3 audioBlob Chat tr chat syn st)
             = calls st @ [PostTranscribe audioBlob, PostChat ttext True, PostSynthesize reply]"
  using assms
  by (simp add: processVoice_v3_def processVoice_try_v3_def Let_def messagesOf_v3_simps
        messagesOf_issue messagesOf_speakResponse calls_v3_simps speakResponse_v3_frame)

text \<open>
  C10, as the code has it. In voice chat, once the transcription has given a text that
  is not blank and the chat request has resolved with a JSON value, \<open>processVoice\<close>
  calls \<open>addMessage\<close> for the assistant with whatever \<open>reply\<close> is, without the test
  that \<open>sendMessage\<close> makes. In the third version an assistant entry is therefore
  always appended, with the escaped text of \<open>reply\<close> (nothing when \<open>reply\<close> is
  \<^verbatim>\<open>undefined\<close>), and synthesis is requested for \<open>reply\<close>. In the first version the
  entry is appended when \<open>reply\<close> is a string, the empty one included; when \<open>reply\<close> is
  anything else, \<^verbatim>\<open>undefined\<close> included, \<open>formatMessage\<close> throws inside \<open>addMessage\<close>,
  nothing is appended by that call, the handler of \<open>processVoice\<close> appends the fixed
  apology instead, and no synthesis is requested.
\<close>

theorem processVoice_chat_reply_unguarded:
  assumes "tr = Some tresp" and "resp_ok tresp" and "resp_json tresp = Some td"
    and "getProp td (js ''text'') = Inr (Str t)" and "trim t \<noteq> []"
    and "chat = Some cresp" and "resp_json cresp = Some cd"
    and "getProp cd (js ''reply'') = Inr reply"
    and "processVoice audioBlob Chat tr chat syn playOk st = (st', e)"
    and "w = processVoice_v3 audioBlob Chat tr chat syn st"
  shows "(messagesOf Assistant w = messagesOf Assistant st @ [escapeHtml reply]
          \<and> calls w = calls st
               @ [PostTranscribe audioBlob, PostChat (Str t) True, PostSynthesize reply]
          \<and> escapeHtml Undefined = [])
       \<and> e = None
       \<and> (\<forall>s. reply = Str s \<longrightarrow>
             messagesOf Assistant st' = messagesOf Assistant st @ [formatMessage_html s]
             \<and> calls st' = calls st
                  @ [PostTranscribe audioBlob, PostChat (Str t) True, PostSynthesize reply])
       \<and> ((\<forall>s. reply \<noteq> Str s) \<longrightarrow>
             snd (addMessage Assistant reply st) = Some TypeError
             \<and> children (fst (addMessage Assistant reply st)) = children st
             \<and> messagesOf Assistant st'
                 = messagesOf Assistant st @ [formatMessage_html (voiceApology Chat)]
             \<and> calls st' = calls st @ [PostTranscribe audioBlob, PostChat (Str t) True])"
proof -
  have "t \<noteq> []" using assms(5) by (auto simp: trim_def)
  then have tt: "truthy (Str t)" by simp
  have v3: "messagesOf Assistant w = messagesOf Assistant st @ [escapeHtml reply]
          \<and> calls w = calls st
               @ [PostTranscribe audioBlob, PostChat (Str t) True, PostSynthesize reply]"
    using processVoice_v3_chat_reply [OF assms(1,3,4) tt assms(6-8), of audioBlob syn st]
    unfolding assms(10) by simp
  have u: "escapeHtml Undefined = []"
    by (simp add: escapeHtml_def serializeText_def)
  show ?thesis
  proof (cases "\<exists>s. reply = Str s")
    case True
    then obtain s where s: "reply = Str s" by blast
    from processVoice_chat_string_reply
           [OF assms(1-7) assms(8) [unfolded s] assms(9)] v3 u s
    show ?thesis by simp
  next
    case False
    then have n: "\<forall>s. reply \<noteq> Str s" by simp
    from processVoice_chat_other_reply [OF assms(1-8) n assms(9)] v3 u n
      addMessage_assistant_not_string [OF n, of st]
    show ?thesis by (simp add: children_hideWelcome)
  qed
qed
theorem processVoice_missing_reply_counterexample:
  "snd (addMessage Assistant Undefined initialPage) = Some TypeError
   \<and> children (fst (addMessage Assistant Undefined initialPage)) = []
   \<and> messagesOf Assistant (fst (processVoice (Blob [1, 2] (js ''audio/webm'')) Chat
         (Some \<lparr>resp_ok = True, resp_json = Some (Obj [(js ''text'', Str (js ''hi''))])\<rparr>)
         (Some \<lparr>resp_ok = True, resp_json = Some (Obj [])\<rparr>) None True initialPage))
       = [js ''<p>Sorry, I had trouble with the voice service. Please try again or type your message.</p>'']
   \<and> calls (fst (processVoice (Blob [1, 2] (js ''audio/webm'')) Chat
         (Some \<lparr>resp_ok = True, resp_json = Some (Obj [(js ''text'', Str (js ''hi''))])\<rparr>)
         (Some \<lparr>resp_ok = True, resp_json = Some (Obj [])\<rparr>) None True initialPage))
       = [PostTranscribe (Blob [1, 2] (js ''audio/webm'')), PostChat (Str (js ''hi'')) True]"
proof -
  let ?tr = "Some \<lparr>resp_ok = True, resp_json = Some (Obj [(js ''text'', Str (js ''hi''))])\<rparr>"
  let ?chat = "Some \<lparr>resp_ok = True, resp_json = Some (Obj [])\<rparr>"
  let ?blob = "Blob [1, 2] (js ''audio/webm'')"
  have a: "snd (addMessage Assistant Undefined initialPage) = Some TypeError"
          "children (fst (addMessage Assistant Undefined initialPage)) = []"
    by (simp_all add: addMessage_assistant hideWelcome_def initialPage_def)
  have g: "getProp (Obj [(js ''text'', Str (js ''hi''))]) (js ''text'') = Inr (Str (js ''hi''))"
          "getProp (Obj []) (js ''reply'') = Inr Undefined"
    by (simp_all add: objGet_def js_def)
  have t: "trim (js ''hi'') \<noteq> []"
    by (simp add: trim_def isWhiteSpace_def js_def)
  have f: "formatMessage_html (voiceApology Chat)
             = js ''<p>Sorry, I had trouble with the voice service. Please try again or type your message.</p>''"
    by (simp add: voiceApology_def regex_defs)
  have m: "messagesOf Assistant initialPage = []" "calls initialPage = []"
    by (simp_all add: page_defs)
  from processVoice_chat_other_reply
         [of ?tr _ _ "js ''hi''" ?chat _ _ Undefined ?blob None True initialPage,
          OF refl _ _ g(1) t refl _ g(2) _ prod.collapse [symmetric]]
  have "messagesOf Assistant (fst (processVoice ?blob Chat ?tr ?chat None True initialPage))
          = messagesOf Assistant initialPage @ [formatMessage_html (voiceApology Chat)]
        \<and> calls (fst (processVoice ?blob Chat ?tr ?chat None True initialPage))
          = calls initialPage @ [PostTranscribe ?blob, PostChat (Str (js ''hi'')) True]"
    by simp
  with a f m show ?thesis by simp
qed

theorem processVoice_chat_reply_unguarded_witness:
  "trim (js ''hi'') \<noteq> []
   \<and> getProp (Obj []) (js ''reply'') = Inr Undefined
   \<and> messagesOf Assistant (processVoice_v3 (Blob [1, 2] (js ''audio/webm'')) Chat
         (Some \<lparr>resp_ok = True, resp_json = Some (Obj [(js ''text'', Str (js ''hi''))])\<rparr>)
         (Some \<lparr>resp_ok = True, resp_json = Some (Obj [])\<rparr>) None initialPage)
       = [[]]
   \<and> calls (processVoice_v3 (Blob [1, 2] (js ''audio/webm'')) Chat
         (Some \<lparr>resp_ok = True, resp_json = Some (Obj [(js ''text'', Str (js ''hi''))])\<rparr>)
         (Some \<lparr>resp_ok = True, resp_json = Some (Obj [])\<rparr>) None initialPage)
       = [PostTranscribe (Blob [1, 2] (js ''audio/webm'')), PostChat (Str (js ''hi'')) True,
          PostSynthesize Undefined]
   \<and> messagesOf Assistant (fst (processVoice (Blob [1, 2] (js ''audio/webm'')) Chat
         (Some \<lparr>resp_ok = True, resp_json = Some (Obj [(js ''text'', Str (js ''hi''))])\<rparr>)
         (Some \<lparr>resp_ok = True, resp_json = Some (Obj [])\<rparr>) None True initialPage))
       = [js ''<p>Sorry, I had trouble with the voice service. Please try again or type your message.</p>'']
   \<and> messagesOf Assistant (fst (processVoice (Blob [1, 2] (js ''audio/webm'')) Chat
         (Some \<lparr>resp_ok = True, resp_json = Some (Obj [(js ''text'', Str (js ''hi''))])\<rparr>)
         (Some \<lparr>resp_ok = True, resp_json = Some (Obj [(js ''reply'', Str [])])\<rparr>)
         None True initialPage))
       = [js ''<p></p>'']"
proof -
  let ?tr = "Some \<lparr>resp_ok = True, resp_json = Some (Obj [(js ''text'', Str (js ''hi''))])\<rparr>"
  let ?chat = "Some \<lparr>resp_ok = True, resp_json = Some (Obj [])\<rparr>"
  let ?chat' = "Some \<lparr>resp_ok = True, resp_json = Some (Obj [(js ''reply'', Str [])])\<rparr>"
  let ?blob = "Blob [1, 2] (js ''audio/webm'')"
  have g: "getProp (Obj [(js ''text'', Str (js ''hi''))]) (js ''text'') = Inr (Str (js ''hi''))"
          "getProp (Obj []) (js ''reply'') = Inr Undefined"
          "getProp (Obj [(js ''reply'', Str [])]) (js ''reply'') = Inr (Str [])"
    by (simp_all add: objGet_def js_def)
  have t: "trim (js ''hi'') \<noteq> []"
    by (simp add: trim_def isWhiteSpace_def js_def)
  have f: "formatMessage_html (voiceApology Chat)
             = js ''<p>Sorry, I had trouble with the voice service. Please try again or type your message.</p>''"
          "formatMessage_html [] = js ''<p></p>''"
    by (simp_all add: voiceApology_def regex_defs)
  have m: "messagesOf Assistant initialPage = []" "calls initialPage = []"
    by (simp_all add: page_defs)
  note A = processVoice_chat_reply_unguarded
         [of ?tr _ _ "js ''hi''" ?chat _ _ Undefined ?blob None True initialPage,
          OF refl _ _ g(1) t refl _ g(2) prod.collapse [symmetric] refl]
  note B = processVoice_chat_reply_unguarded
         [of ?tr _ _ "js ''hi''" ?chat' _ _ "Str []" ?blob None True initialPage,
          OF refl _ _ g(1) t refl _ g(3) prod.collapse [symmetric] refl]
  have 1: "messagesOf Assistant (processVoice_v3 ?blob Chat ?tr ?chat None initialPage) = [[]]"
    "calls (processVoice_v3 ?blob Chat ?tr ?chat None initialPage)
       = [PostTranscribe ?blob, PostChat (Str (js ''hi'')) True, PostSynthesize Undefined]"
    "messagesOf Assistant (fst (processVoice ?blob Chat ?tr ?chat None True initialPage))
       = [js ''<p>Sorry, I had trouble with the voice service. Please try again or type your message.</p>'']"
    using A f m by simp_all
  have 2: "messagesOf Assistant (fst (processVoice ?blob Chat ?tr ?chat' None True initialPage))
       = [js ''<p></p>'']"
    using B f m by simp
  from t g 1 2 show ?thesis by simp
qed
section \<open>Properties of the morning wisdom and of the ticker\<close>

text \<open>
  C7. Outside the window (the hour below 7, or 9 and above: at 06:59 and at 09:00)
  \<open>checkMorningWisdom\<close> changes nothing: no request, no notification, nothing
  stored. At 07:30, with the permission granted and the stored date not today's, it
  requests the wisdom, and when the response has a non-empty string as its
  \<^verbatim>\<open>wisdom\<close> it shows exactly one notification, with that body, and stores today's
  date.
\<close>

theorem checkMorningWisdom_window:
  "(hour < 7 \<or> 9 \<le> hour \<longrightarrow> checkMorningWisdom hour minute today permission out st = st)
   \<and> checkMorningWisdom 6 59 today permission out st = st
   \<and> checkMorningWisdom 9 0 today permission out st = st
   \<and> (localStorage st wisdomKey \<noteq> Some today \<longrightarrow>
        calls (checkMorningWisdom 7 30 today (js ''granted'') out st)
          = calls st @ [GetMorningWisdom])
   \<and> (localStorage st wisdomKey \<noteq> Some today \<and> out = Some r \<and> resp_json r = Some data
        \<and> getProp data (js ''wisdom'') = Inr (Str w) \<and> w \<noteq> [] \<longrightarrow>
        notifications (checkMorningWisdom 7 30 today (js ''granted'') out st)
          = notifications st @
              [\<lparr>nt_title = js ''Good Morning '' @ [9728, 65039], nt_body = Str w,
                nt_icon = js ''/icons/icon-192.png'', nt_tag = js ''morning-wisdom'',
                nt_requireInteraction = False\<rparr>]
        \<and> localStorage (checkMorningWisdom 7 30 today (js ''granted'') out st) wisdomKey
            = Some today)"
proof -
  have a: "hour < 7 \<or> 9 \<le> hour \<longrightarrow> checkMorningWisdom hour minute today permission out st = st"
    by (simp add: checkMorningWisdom_def)
  have b: "checkMorningWisdom 6 59 today permission out st = st"
          "checkMorningWisdom 9 0 today permission out st = st"
    by (simp_all add: checkMorningWisdom_def)
  have c: "localStorage st wisdomKey \<noteq> Some today \<longrightarrow>
        calls (checkMorningWisdom 7 30 today (js ''granted'') out st)
          = calls st @ [GetMorningWisdom]"
    by (simp add: checkMorningWisdom_def Let_def issue_def split: option.splits sum.splits)
  have d: "localStorage st wisdomKey \<noteq> Some today \<and> out = Some r \<and> resp_json r = Some data
        \<and> getProp data (js ''wisdom'') = Inr (Str w) \<and> w \<noteq> [] \<longrightarrow>
        notifications (checkMorningWisdom 7 30 today (js ''granted'') out st)
          = notifications st @
              [\<lparr>nt_title = js ''Good Morning '' @ [9728, 65039], nt_body = Str w,
                nt_icon = js ''/icons/icon-192.png'', nt_tag = js ''morning-wisdom'',
                nt_requireInteraction = False\<rparr>]
        \<and> localStorage (checkMorningWisdom 7 30 today (js ''granted'') out st) wisdomKey
            = Some today"
    by (simp add: checkMorningWisdom_def Let_def issue_def)
  from a b c d show ?thesis by blast
qed

theorem checkMorningWisdom_window_witness:
  "checkMorningWisdom 6 59 (js ''Mon Nov 02 2026'') (js ''granted'')
     (Some \<lparr>resp_ok = True, resp_json = Some (Obj [(js ''wisdom'', Str (js ''Buy low''))])\<rparr>)
     initialPage = initialPage
   \<and> localStorage initialPage wisdomKey \<noteq> Some (js ''Mon Nov 02 2026'')
   \<and> calls (checkMorningWisdom 7 30 (js ''Mon Nov 02 2026'') (js ''granted'')
        (Some \<lparr>resp_ok = True, resp_json = Some (Obj [(js ''wisdom'', Str (js ''Buy low''))])\<rparr>)
        initialPage) = [GetMorningWisdom]
   \<and> map nt_body (notifications (checkMorningWisdom 7 30 (js ''Mon Nov 02 2026'') (js ''granted'')
        (Some \<lparr>resp_ok = True, resp_json = Some (Obj [(js ''wisdom'', Str (js ''Buy low''))])\<rparr>)
        initialPage)) = [Str (js ''Buy low'')]
   \<and> localStorage (checkMorningWisdom 7 30 (js ''Mon Nov 02 2026'') (js ''granted'')
        (Some \<lparr>resp_ok = True, resp_json = Some (Obj [(js ''wisdom'', Str (js ''Buy low''))])\<rparr>)
        initialPage) wisdomKey = Some (js ''Mon Nov 02 2026'')"
proof -
  let ?out = "Some \<lparr>resp_ok = True, resp_json = Some (Obj [(js ''wisdom'', Str (js ''Buy low''))])\<rparr>"
  have l: "localStorage initialPage wisdomKey \<noteq> Some (js ''Mon Nov 02 2026'')"
          "calls initialPage = []" "notifications initialPage = []"
    by (simp_all add: initialPage_def)
  have g: "getProp (Obj [(js ''wisdom'', Str (js ''Buy low''))]) (js ''wisdom'')
             = Inr (Str (js ''Buy low''))" "js ''Buy low'' \<noteq> []"
    by (simp_all add: objGet_def js_def)
  from checkMorningWisdom_window
         [of 6 59 "js ''Mon Nov 02 2026''" "js ''granted''" ?out initialPage
             "\<lparr>resp_ok = True, resp_json = Some (Obj [(js ''wisdom'', Str (js ''Buy low''))])\<rparr>"
             "Obj [(js ''wisdom'', Str (js ''Buy low''))]" "js ''Buy low''"]
    l g
  show ?thesis by simp
qed

subsection \<open>The set of tickers\<close>

lemma sameValueZero_eq: "sameValueZero x y \<Longrightarrow> x = y"
  by (induction x y rule: sameValueZero.induct) simp_all

lemma sameValueZero_Str: "sameValueZero y (Str s) = (y = Str s)"
  by (cases y) auto

lemma set_setAdd: "set (setAdd members x) = insert x (set members)"
  by (auto simp: setAdd_def list_ex_iff dest: sameValueZero_eq)

lemma set_foldl_setAdd: "set (foldl setAdd members xs) = set members \<union> set xs"
  by (induction xs arbitrary: members) (simp_all add: set_setAdd)

lemma strings_setAdd:
  assumes "distinct [s. Str s \<leftarrow> members]"
  shows "distinct [s. Str s \<leftarrow> setAdd members x]"
proof (cases "list_ex (\<lambda>y. sameValueZero y x) members")
  case True
  with assms show ?thesis by (simp add: setAdd_def)
next
  case False
  have "s \<notin> set [s. Str s \<leftarrow> members]" if "x = Str s" for s
  proof
    assume "s \<in> set [s. Str s \<leftarrow> members]"
    then have "Str s \<in> set members" by (auto split: jsval.splits)
    with False that show False by (auto simp: list_ex_iff sameValueZero_Str)
  qed
  with assms False show ?thesis
    by (cases x) (simp_all add: setAdd_def)
qed

lemma strings_foldl_setAdd:
  "distinct [s. Str s \<leftarrow> members] \<Longrightarrow> distinct [s. Str s \<leftarrow> foldl setAdd members xs]"
  by (induction xs arbitrary: members) (simp_all add: strings_setAdd)

lemma pairwise_setAdd:
  assumes "\<forall>j < length members. \<forall>i < j. \<not> sameValueZero (members ! i) (members ! j)"
  shows "\<forall>j < length (setAdd members x). \<forall>i < j.
           \<not> sameValueZero (setAdd members x ! i) (setAdd members x ! j)"
proof (cases "list_ex (\<lambda>y. sameValueZero y x) members")
  case True
  with assms show ?thesis by (simp add: setAdd_def)
next
  case False
  then have n: "\<And>i. i < length members \<Longrightarrow> \<not> sameValueZero (members ! i) x"
    by (auto simp: list_ex_iff)
  show ?thesis
  proof (intro allI impI)
    fix j i
    assume j: "j < length (setAdd members x)" and i: "i < j"
    show "\<not> sameValueZero (setAdd members x ! i) (setAdd members x ! j)"
    proof (cases "j < length members")
      case True
      with i assms False show ?thesis by (simp add: setAdd_def nth_append)
    next
      case False
      with j \<open>\<not> list_ex (\<lambda>y. sameValueZero y x) members\<close>
      have "j = length members" by (simp add: setAdd_def)
      with i n \<open>\<not> list_ex (\<lambda>y. sameValueZero y x) members\<close> show ?thesis
        by (simp add: setAdd_def nth_append)
    qed
  qed
qed

lemma pairwise_foldl_setAdd:
  "\<forall>j < length members. \<forall>i < j. \<not> sameValueZero (members ! i) (members ! j) \<Longrightarrow>
   \<forall>j < length (foldl setAdd members xs). \<forall>i < j.
     \<not> sameValueZero (foldl setAdd members xs ! i) (foldl setAdd members xs ! j)"
proof (induction xs arbitrary: members)
  case Nil
  then show ?case by simp
next
  case (Cons x xs)
  from Cons.IH [OF pairwise_setAdd [OF Cons.prems]] show ?case by simp
qed

lemma newSet_properties:
  "set (newSet xs) = set xs
   \<and> distinct [s. Str s \<leftarrow> newSet xs]
   \<and> (\<forall>j < length (newSet xs). \<forall>i < j. \<not> sameValueZero (newSet xs ! i) (newSet xs ! j))"
  unfolding newSet_def
  using set_foldl_setAdd [of "[]" xs] strings_foldl_setAdd [of "[]" xs]
    pairwise_foldl_setAdd [of "[]" xs]
  by simp

lemma all_Str_map: "\<forall>t \<in> set xs. \<exists>s. t = Str s \<Longrightarrow> map Str [s. Str s \<leftarrow> xs] = xs"
  by (induction xs) auto

lemma all_Str_distinct:
  assumes "\<forall>t \<in> set xs. \<exists>s. t = Str s" and "distinct [s. Str s \<leftarrow> xs]"
  shows "distinct xs"
proof -
  have "distinct (map Str [s. Str s \<leftarrow> xs])"
    using assms(2) by (simp add: distinct_map inj_on_def)
  then show ?thesis by (simp add: all_Str_map [OF assms(1)])
qed

lemma defaultTickers_strings: "\<forall>t \<in> set defaultTickers. \<exists>s. t = Str s"
  by (auto simp: defaultTickers_def)

text \<open>
  What \<open>loadTicker\<close> does remove. When both requests give a list whose members'
  tickers can be read, the list of tickers that it passes on, and for which the quote
  requests are issued one each in its order, has the members of the defaults, the
  portfolio's tickers and the watchlist's tickers and no two entries that \<^verbatim>\<open>Set\<close>
  holds equal: no string occurs twice in it, code unit for code unit.
\<close>

lemma loadTicker_symbols_deduplicated:
  assumes "pout = Some pr" and "resp_json pr = Some pd"
    and "getProp pd (js ''portfolio'') = Inr portfolio" and "mapTicker portfolio = Inr ps"
    and "wout = Some wr" and "resp_json wr = Some wd"
    and "getProp wd (js ''watchlist'') = Inr watchlist" and "mapTicker watchlist = Inr ws"
    and "tickers = newSet (defaultTickers @ ps @ ws)"
  shows "loadTicker_symbols pout wout = Inr tickers
         \<and> calls (loadTicker_resume pout wout st) = calls st @ map GetStock tickers
         \<and> set tickers = set defaultTickers \<union> set ps \<union> set ws
         \<and> distinct [s. Str s \<leftarrow> tickers]
         \<and> (\<forall>j < length tickers. \<forall>i < j. \<not> sameValueZero (tickers ! i) (tickers ! j))
         \<and> ((\<forall>t \<in> set ps \<union> set ws. \<exists>s. t = Str s) \<longrightarrow>
               distinct tickers \<and> distinct (map GetStock tickers))"
proof -
  have s: "loadTicker_symbols pout wout = Inr tickers"
    using assms by (simp add: loadTicker_symbols_def loadTicker_tickers_def)
  then have c: "calls (loadTicker_resume pout wout st) = calls st @ map GetStock tickers"
    by (simp add: loadTicker_resume_def updateTickerWithStocks_begin_def)
  note p = newSet_properties [of "defaultTickers @ ps @ ws", folded assms(9)]
  have m: "set tickers = set defaultTickers \<union> set ps \<union> set ws"
    using p by auto
  have d: "distinct tickers \<and> distinct (map GetStock tickers)"
    if a: "\<forall>t \<in> set ps \<union> set ws. \<exists>s. t = Str s"
  proof -
    have "\<forall>t \<in> set tickers. \<exists>s. t = Str s"
      using a defaultTickers_strings m by auto
    then have "distinct tickers"
      using p by (auto intro: all_Str_distinct)
    then show ?thesis by (simp add: distinct_map inj_on_def)
  qed
  from s c m p d show ?thesis by blast
qed

lemma loadTicker_symbols_deduplicated_instance:
  "mapTicker (Arr [Obj [(js ''ticker'', Str (js ''AAPL''))], Obj [(js ''ticker'', Str (js ''IBM''))]])
     = Inr [Str (js ''AAPL''), Str (js ''IBM'')]
   \<and> mapTicker (Arr [Obj [(js ''ticker'', Str (js ''IBM''))], Obj [(js ''ticker'', Str (js ''TSLA''))]])
     = Inr [Str (js ''IBM''), Str (js ''TSLA'')]
   \<and> newSet (defaultTickers @ [Str (js ''AAPL''), Str (js ''IBM'')]
        @ [Str (js ''IBM''), Str (js ''TSLA'')]) = defaultTickers @ [Str (js ''IBM'')]
   \<and> calls (loadTicker_resume
        (Some \<lparr>resp_ok = True, resp_json = Some (Obj [(js ''portfolio'',
           Arr [Obj [(js ''ticker'', Str (js ''AAPL''))], Obj [(js ''ticker'', Str (js ''IBM''))]])])\<rparr>)
        (Some \<lparr>resp_ok = True, resp_json = Some (Obj [(js ''watchlist'',
           Arr [Obj [(js ''ticker'', Str (js ''IBM''))], Obj [(js ''ticker'', Str (js ''TSLA''))]])])\<rparr>)
        initialPage)
     = map GetStock (defaultTickers @ [Str (js ''IBM'')])
   \<and> distinct (map GetStock (defaultTickers @ [Str (js ''IBM'')]))"
proof -
  let ?pa = "Arr [Obj [(js ''ticker'', Str (js ''AAPL''))], Obj [(js ''ticker'', Str (js ''IBM''))]]"
  let ?wa = "Arr [Obj [(js ''ticker'', Str (js ''IBM''))], Obj [(js ''ticker'', Str (js ''TSLA''))]]"
  let ?ps = "[Str (js ''AAPL''), Str (js ''IBM'')]"
  let ?ws = "[Str (js ''IBM''), Str (js ''TSLA'')]"
  have mp: "mapTicker ?pa = Inr ?ps" and mw: "mapTicker ?wa = Inr ?ws"
    by (simp_all add: objGet_def js_def)
  have gp: "getProp (Obj [(js ''portfolio'', ?pa)]) (js ''portfolio'') = Inr ?pa"
    and gw: "getProp (Obj [(js ''watchlist'', ?wa)]) (js ''watchlist'') = Inr ?wa"
    by (simp_all add: objGet_def js_def)
  have n: "newSet (defaultTickers @ ?ps @ ?ws) = defaultTickers @ [Str (js ''IBM'')]"
    by (simp add: newSet_def setAdd_def defaultTickers_def js_def)
  have st: "\<forall>t \<in> set ?ps \<union> set ?ws. \<exists>s. t = Str s"
    by simp
  have c0: "calls initialPage = []"
    by (simp add: initialPage_def)
  have rp: "resp_json \<lparr>resp_ok = True, resp_json = Some (Obj [(js ''portfolio'', ?pa)])\<rparr>
              = Some (Obj [(js ''portfolio'', ?pa)])"
    and rw: "resp_json \<lparr>resp_ok = True, resp_json = Some (Obj [(js ''watchlist'', ?wa)])\<rparr>
              = Some (Obj [(js ''watchlist'', ?wa)])"
    by simp_all
  from loadTicker_symbols_deduplicated [OF refl rp gp mp refl rw gw mw refl, of initialPage]
    n st c0 mp mw
  show ?thesis by simp
qed

text \<open>
  C9. The set is not free of duplicate symbols. Ticker symbols are the same whatever
  their case, and \<open>loadTicker\<close> compares them as they come: with an empty portfolio
  and a watchlist that holds \<^verbatim>\<open>aapl\<close>, the list of tickers is the defaults followed by
  \<^verbatim>\<open>aapl\<close>, it holds the symbol AAPL twice (as \<^verbatim>\<open>AAPL\<close> and as \<^verbatim>\<open>aapl\<close>), and a
  quote request is issued for each of the two.
\<close>

theorem loadTicker_keeps_case_variants:
  "loadTicker_symbols
     (Some \<lparr>resp_ok = True, resp_json = Some (Obj [(js ''portfolio'', Arr [])])\<rparr>)
     (Some \<lparr>resp_ok = True, resp_json = Some (Obj [(js ''watchlist'',
        Arr [Obj [(js ''ticker'', Str (js ''aapl''))]])])\<rparr>)
     = Inr (defaultTickers @ [Str (js ''aapl'')])
   \<and> calls (loadTicker_resume
        (Some \<lparr>resp_ok = True, resp_json = Some (Obj [(js ''portfolio'', Arr [])])\<rparr>)
        (Some \<lparr>resp_ok = True, resp_json = Some (Obj [(js ''watchlist'',
           Arr [Obj [(js ''ticker'', Str (js ''aapl''))]])])\<rparr>)
        initialPage)
       = map GetStock (defaultTickers @ [Str (js ''aapl'')])
   \<and> [s. Str s \<leftarrow> defaultTickers @ [Str (js ''aapl'')], toUpperCase_ascii s = js ''AAPL'']
       = [js ''AAPL'', js ''aapl'']
   \<and> [c \<leftarrow> map GetStock (defaultTickers @ [Str (js ''aapl'')]).
         c = GetStock (Str (js ''AAPL'')) \<or> c = GetStock (Str (js ''aapl''))]
       = [GetStock (Str (js ''AAPL'')), GetStock (Str (js ''aapl''))]"
proof -
  let ?wa = "Arr [Obj [(js ''ticker'', Str (js ''aapl''))]]"
  let ?pout = "Some \<lparr>resp_ok = True, resp_json = Some (Obj [(js ''portfolio'', Arr [])])\<rparr>"
  let ?wout = "Some \<lparr>resp_ok = True, resp_json = Some (Obj [(js ''watchlist'', ?wa)])\<rparr>"
  have n: "newSet (defaultTickers @ [] @ [Str (js ''aapl'')]) = defaultTickers @ [Str (js ''aapl'')]"
    by (simp add: newSet_def setAdd_def defaultTickers_def js_def)
  have g: "getProp (Obj [(js ''portfolio'', Arr [])]) (js ''portfolio'') = Inr (Arr [])"
          "getProp (Obj [(js ''watchlist'', ?wa)]) (js ''watchlist'') = Inr ?wa"
          "mapTicker ?wa = Inr [Str (js ''aapl'')]"
    by (simp_all add: objGet_def js_def)
  have s: "loadTicker_symbols ?pout ?wout = Inr (defaultTickers @ [Str (js ''aapl'')])"
    using n g by (simp add: loadTicker_symbols_def loadTicker_tickers_def)
  have c: "calls (loadTicker_resume ?pout ?wout initialPage)
             = map GetStock (defaultTickers @ [Str (js ''aapl'')])"
    unfolding loadTicker_resume_def s
    by (simp add: updateTickerWithStocks_begin_def initialPage_def)
  have u: "[s. Str s \<leftarrow> defaultTickers @ [Str (js ''aapl'')], toUpperCase_ascii s = js ''AAPL'']
             = [js ''AAPL'', js ''aapl'']"
    by (simp add: defaultTickers_def toUpperCase_ascii_def js_def)
  have q: "[c \<leftarrow> map GetStock (defaultTickers @ [Str (js ''aapl'')]).
             c = GetStock (Str (js ''AAPL'')) \<or> c = GetStock (Str (js ''aapl''))]
           = [GetStock (Str (js ''AAPL'')), GetStock (Str (js ''aapl''))]"
    by (simp add: defaultTickers_def js_def)
  from s c u q show ?thesis by simp
qed
end
